theory Spec2Isabelle
  imports Complex_Main
begin

section \<open>Entity model (game-objects)\<close>

text \<open>
  The TypeScript \<^verbatim>\<open>number\<close> type is modelled by the mathematical reals: every
  statement below is about the arithmetic the program text denotes, not about the
  rounding of IEEE doubles. \<^verbatim>\<open>Vector2D\<close> (an object with fields x and y) is a pair.
\<close>

type_synonym Vector2D = "real \<times> real"

text \<open>The abstract class \<^verbatim>\<open>GameObject\<close> and its three subclasses, as extensible records.\<close>

record GameObject =
  position :: Vector2D
  velocity :: Vector2D
  rotation :: real
  scale :: real
  active :: bool

datatype AsteroidSize = large | medium | small

record Ship = GameObject +
  thrust :: real

record Asteroid = GameObject +
  rotationSpeed :: real
  asize :: AsteroidSize

record Bullet = GameObject +
  lifeTime :: real

text \<open>Private fields that are initialised once and never assigned again.\<close>

definition maxSpeed :: real where "maxSpeed = 300"
definition thrustPower :: real where "thrustPower = 400"
definition Ship_rotationSpeed :: real where "Ship_rotationSpeed = 5"
definition friction :: real where "friction = 0.98"
definition maxLifeTime :: real where "maxLifeTime = 2"

subsection \<open>GameObject.wrapPosition and GameObject.collidesWith\<close>

text \<open>
  One axis of \<^verbatim>\<open>wrapPosition\<close>: the two \<^verbatim>\<open>if\<close> statements run in sequence, the
  second one reading what the first one wrote.
\<close>

definition wrapAxis :: "real \<Rightarrow> real \<Rightarrow> real" where
  "wrapAxis bound p =
     (let p1 = (if p < 0 then bound else p)
      in if p1 > bound then 0 else p1)"

definition wrapPosition ::
  "Vector2D \<Rightarrow> 'a GameObject_scheme \<Rightarrow> 'a GameObject_scheme" where
  "wrapPosition canvasSize obj =
     obj\<lparr>position := (wrapAxis (fst canvasSize) (fst (position obj)),
                       wrapAxis (snd canvasSize) (snd (position obj)))\<rparr>"

text \<open>
  \<^verbatim>\<open>collidesWith\<close> reads the two positions and calls the virtual
  \<^verbatim>\<open>getCollisionRadius\<close> on both objects; the radii are passed in by the callers
  below, which know the classes of their arguments.
\<close>

definition collides :: "Vector2D \<Rightarrow> real \<Rightarrow> Vector2D \<Rightarrow> real \<Rightarrow> bool" where
  "collides p r q s =
     (let dx = fst p - fst q;
          dy = snd p - snd q;
          distance = sqrt (dx * dx + dy * dy)
      in distance < r + s)"

definition Ship_getCollisionRadius :: "Ship \<Rightarrow> real" where
  "Ship_getCollisionRadius s = 12"

definition Asteroid_getCollisionRadius :: "Asteroid \<Rightarrow> real" where
  "Asteroid_getCollisionRadius a = 20 * scale a"

definition Bullet_getCollisionRadius :: "Bullet \<Rightarrow> real" where
  "Bullet_getCollisionRadius b = 2"

text \<open>The tagged view of an entity, for statements about any two entities.\<close>

datatype Entity = AShip Ship | AnAsteroid Asteroid | ABullet Bullet

fun entityPosition :: "Entity \<Rightarrow> Vector2D" where
  "entityPosition (AShip s) = position s"
| "entityPosition (AnAsteroid a) = position a"
| "entityPosition (ABullet b) = position b"

fun getCollisionRadius :: "Entity \<Rightarrow> real" where
  "getCollisionRadius (AShip s) = Ship_getCollisionRadius s"
| "getCollisionRadius (AnAsteroid a) = Asteroid_getCollisionRadius a"
| "getCollisionRadius (ABullet b) = Bullet_getCollisionRadius b"

definition collidesWith :: "Entity \<Rightarrow> Entity \<Rightarrow> bool" where
  "collidesWith this other =
     collides (entityPosition this) (getCollisionRadius this)
              (entityPosition other) (getCollisionRadius other)"

subsection \<open>Ship\<close>

definition new_Ship :: "real \<Rightarrow> real \<Rightarrow> Ship" where
  "new_Ship px py =
     \<lparr>position = (px, py), velocity = (0, 0), rotation = 0, scale = 1, active = True,
      thrust = 0\<rparr>"

definition Ship_setThrust :: "real \<Rightarrow> Ship \<Rightarrow> Ship" where
  "Ship_setThrust t s = s\<lparr>thrust := max 0 (min 1 t)\<rparr>"

definition Ship_rotate :: "real \<Rightarrow> Ship \<Rightarrow> Ship" where
  "Ship_rotate direction s =
     s\<lparr>rotation := rotation s + direction * Ship_rotationSpeed * (1 / 60)\<rparr>"

text \<open>The five commented stages of \<^verbatim>\<open>Ship.update\<close>, in the order of the source.\<close>

definition Ship_applyThrust :: "real \<Rightarrow> Ship \<Rightarrow> Ship" where
  "Ship_applyThrust deltaTime s =
     (if thrust s > 0 then
        (let thrustX = sin (rotation s) * thrustPower * deltaTime;
             thrustY = - cos (rotation s) * thrustPower * deltaTime
         in s\<lparr>velocity := (fst (velocity s) + thrustX, snd (velocity s) + thrustY)\<rparr>)
      else s)"

definition Ship_limitSpeed :: "Ship \<Rightarrow> Ship" where
  "Ship_limitSpeed s =
     (let speed = sqrt (fst (velocity s) * fst (velocity s) + snd (velocity s) * snd (velocity s))
      in if speed > maxSpeed then
           s\<lparr>velocity := ((fst (velocity s) / speed) * maxSpeed,
                           (snd (velocity s) / speed) * maxSpeed)\<rparr>
         else s)"

definition Ship_applyFriction :: "Ship \<Rightarrow> Ship" where
  "Ship_applyFriction s =
     s\<lparr>velocity := (fst (velocity s) * friction, snd (velocity s) * friction)\<rparr>"

definition integratePosition ::
  "real \<Rightarrow> 'a GameObject_scheme \<Rightarrow> 'a GameObject_scheme" where
  "integratePosition deltaTime obj =
     obj\<lparr>position := (fst (position obj) + fst (velocity obj) * deltaTime,
                       snd (position obj) + snd (velocity obj) * deltaTime)\<rparr>"

definition Ship_update :: "real \<Rightarrow> Vector2D \<Rightarrow> Ship \<Rightarrow> Ship" where
  "Ship_update deltaTime canvasSize s =
     wrapPosition canvasSize
       (integratePosition deltaTime
         (Ship_applyFriction (Ship_limitSpeed (Ship_applyThrust deltaTime s))))"

subsection \<open>Asteroid\<close>

text \<open>
  The constructor calls \<^verbatim>\<open>Math.random()\<close> three times, in this order: for the rotation
  speed, for the travel angle and for the speed. The three results are arguments here.
\<close>

definition scaleOf :: "AsteroidSize \<Rightarrow> real" where
  "scaleOf sz = (case sz of large \<Rightarrow> 1 | medium \<Rightarrow> 0.6 | small \<Rightarrow> 0.3)"

definition new_Asteroid ::
  "real \<Rightarrow> real \<Rightarrow> AsteroidSize \<Rightarrow> real \<Rightarrow> real \<Rightarrow> real \<Rightarrow> Asteroid" where
  "new_Asteroid px py sz r0 r1 r2 =
     (let angle = r1 * pi * 2;
          speed = 50 + r2 * 100
      in \<lparr>position = (px, py), velocity = (cos angle * speed, sin angle * speed),
          rotation = 0, scale = scaleOf sz, active = True,
          rotationSpeed = (r0 - 0.5) * 2, asize = sz\<rparr>)"

definition Asteroid_update :: "real \<Rightarrow> Vector2D \<Rightarrow> Asteroid \<Rightarrow> Asteroid" where
  "Asteroid_update deltaTime canvasSize a =
     wrapPosition canvasSize
       (integratePosition deltaTime (a\<lparr>rotation := rotation a + rotationSpeed a * deltaTime\<rparr>))"

subsection \<open>Bullet\<close>

definition new_Bullet :: "real \<Rightarrow> real \<Rightarrow> real \<Rightarrow> Bullet" where
  "new_Bullet px py angle =
     (let speed = 400
      in \<lparr>position = (px, py), velocity = (sin angle * speed, - cos angle * speed),
          rotation = 0, scale = 1, active = True, lifeTime = 0\<rparr>)"

definition Bullet_update :: "real \<Rightarrow> Vector2D \<Rightarrow> Bullet \<Rightarrow> Bullet" where
  "Bullet_update deltaTime canvasSize b =
     (let b1 = b\<lparr>lifeTime := lifeTime b + deltaTime\<rparr>
      in if lifeTime b1 > maxLifeTime then b1\<lparr>active := False\<rparr>
         else wrapPosition canvasSize (integratePosition deltaTime b1))"

section \<open>The game (game.ts)\<close>

datatype GameState = READY | PLAYING | GAME_OVER | PAUSED

text \<open>
  The four intents that \<^verbatim>\<open>handleInput\<close> polls from the input manager, sampled once per
  frame. The two edge-triggered keys (Space and P) are the handlers \<open>onSpaceDown\<close> and
  \<open>onKeyPDown\<close> below.
\<close>

record Input =
  thrustPressed :: bool
  leftPressed :: bool
  rightPressed :: bool
  firePressed :: bool

text \<open>
  The fields of \<^verbatim>\<open>Game\<close> that the simulation reads or writes. \<open>canvas\<close> is what
  \<^verbatim>\<open>renderer.getCanvasSize()\<close> returns. \<open>randomCalls\<close> counts the calls of
  \<^verbatim>\<open>Math.random()\<close> made so far by the game: the functions below take the sequence
  \<open>rand\<close> of all values \<^verbatim>\<open>Math.random()\<close> returns, and call number \<open>k\<close> returns
  \<open>rand k\<close>. The status bar (DOM) and the high-score list (localStorage) are written
  but never read back by the simulation; they are not part of the record.
\<close>

record Game =
  canvas :: Vector2D
  ship :: Ship
  asteroids :: "Asteroid list"
  bullets :: "Bullet list"
  state :: GameState
  score :: int
  lives :: int
  level :: int
  lastTime :: real
  fireDelay :: real
  randomCalls :: nat

definition maxFireDelay :: real where "maxFireDelay = 0.15"

subsection \<open>Creating the asteroid field\<close>

text \<open>
  The \<^verbatim>\<open>do ... while\<close> loop of \<^verbatim>\<open>createAsteroids\<close> draws a point until it is not
  within 100 of the ship on both axes. Nothing bounds the number of rounds, so the
  loop is a partial function: \<open>None\<close> is the loop that never ends. The result is
  the accepted point and the number of \<^verbatim>\<open>Math.random()\<close> calls made so far.
\<close>

partial_function (option) pickSpawn ::
  "(nat \<Rightarrow> real) \<Rightarrow> Vector2D \<Rightarrow> Vector2D \<Rightarrow> nat \<Rightarrow> (real \<times> real \<times> nat) option" where
  "pickSpawn rand canvasSize shipPos k =
     (let px = rand k * fst canvasSize;
          py = rand (k + 1) * snd canvasSize
      in if \<bar>px - fst shipPos\<bar> < 100 \<and> \<bar>py - snd shipPos\<bar> < 100
         then pickSpawn rand canvasSize shipPos (k + 2)
         else Some (px, py, k + 2))"

fun createLoop :: "(nat \<Rightarrow> real) \<Rightarrow> nat \<Rightarrow> Game \<Rightarrow> Game option" where
  "createLoop rand 0 g = Some g"
| "createLoop rand (Suc n) g =
     (case pickSpawn rand (canvas g) (position (ship g)) (randomCalls g) of
        None \<Rightarrow> None
      | Some (px, py, k) \<Rightarrow>
          createLoop rand n
            (g\<lparr>asteroids := asteroids g @
                   [new_Asteroid px py large (rand k) (rand (k + 1)) (rand (k + 2))],
               randomCalls := k + 3\<rparr>))"

definition createAsteroids :: "(nat \<Rightarrow> real) \<Rightarrow> Game \<Rightarrow> Game option" where
  "createAsteroids rand g =
     (let numAsteroids = 4 + level g
      in createLoop rand (nat numAsteroids) (g\<lparr>asteroids := []\<rparr>))"

definition setupGame :: "(nat \<Rightarrow> real) \<Rightarrow> Game \<Rightarrow> Game option" where
  "setupGame rand g =
     createAsteroids rand
       (g\<lparr>ship := new_Ship (fst (canvas g) / 2) (snd (canvas g) / 2)\<rparr>)"

text \<open>The constructor, on a canvas of the given size, before \<^verbatim>\<open>start()\<close>.\<close>

definition new_Game :: "(nat \<Rightarrow> real) \<Rightarrow> Vector2D \<Rightarrow> Game option" where
  "new_Game rand canvasSize =
     setupGame rand
       \<lparr>canvas = canvasSize, ship = new_Ship 0 0, asteroids = [], bullets = [],
        state = READY, score = 0, lives = 3, level = 1, lastTime = 0, fireDelay = 0,
        randomCalls = 0\<rparr>"

subsection \<open>State transitions and key handlers\<close>

definition startGame :: "Game \<Rightarrow> Game" where
  "startGame g = g\<lparr>state := PLAYING\<rparr>"

definition pauseGame :: "Game \<Rightarrow> Game" where
  "pauseGame g = g\<lparr>state := PAUSED\<rparr>"

definition resumeGame :: "Game \<Rightarrow> Game" where
  "resumeGame g = g\<lparr>state := PLAYING\<rparr>"

definition resetGame :: "(nat \<Rightarrow> real) \<Rightarrow> Game \<Rightarrow> Game option" where
  "resetGame rand g =
     setupGame rand (g\<lparr>score := 0, lives := 3, level := 1, state := READY, bullets := []\<rparr>)"

definition onSpaceDown :: "(nat \<Rightarrow> real) \<Rightarrow> Game \<Rightarrow> Game option" where
  "onSpaceDown rand g =
     (if state g = READY then Some (startGame g)
      else if state g = GAME_OVER then resetGame rand g
      else Some g)"

definition onKeyPDown :: "Game \<Rightarrow> Game" where
  "onKeyPDown g =
     (if state g = PLAYING then pauseGame g
      else if state g = PAUSED then resumeGame g
      else g)"

text \<open>The window's resize event: the renderer sets the canvas to the new window size.\<close>

definition onResize :: "Vector2D \<Rightarrow> Game \<Rightarrow> Game" where
  "onResize newSize g = g\<lparr>canvas := newSize\<rparr>"

subsection \<open>Input handling and firing\<close>

definition fireBullet :: "Game \<Rightarrow> Game" where
  "fireBullet g =
     (let bullet = new_Bullet (fst (position (ship g))) (snd (position (ship g)))
                     (rotation (ship g))
      in g\<lparr>bullets := bullets g @ [bullet]\<rparr>)"

definition handleInput :: "real \<Rightarrow> Input \<Rightarrow> Game \<Rightarrow> Game" where
  "handleInput deltaTime inp g =
     (if state g \<noteq> PLAYING then g
      else
        let g1 = g\<lparr>ship := Ship_setThrust (if thrustPressed inp then 1 else 0) (ship g)\<rparr>;
            g2 = (if leftPressed inp then g1\<lparr>ship := Ship_rotate (- 1) (ship g1)\<rparr> else g1);
            g3 = (if rightPressed inp then g2\<lparr>ship := Ship_rotate 1 (ship g2)\<rparr> else g2);
            g4 = g3\<lparr>fireDelay := fireDelay g3 - deltaTime\<rparr>
        in if firePressed inp \<and> fireDelay g4 \<le> 0
           then (fireBullet g4)\<lparr>fireDelay := maxFireDelay\<rparr>
           else g4)"

subsection \<open>Updating the entities\<close>

text \<open>
  The callback of \<^verbatim>\<open>bullets.filter\<close> updates each bullet, in order, and keeps it when
  it is still active.
\<close>

definition updateGameObjects :: "real \<Rightarrow> Game \<Rightarrow> Game" where
  "updateGameObjects deltaTime g =
     (if state g \<noteq> PLAYING then g
      else
        let canvasSize = canvas g
        in g\<lparr>ship := Ship_update deltaTime canvasSize (ship g),
             asteroids := map (Asteroid_update deltaTime canvasSize) (asteroids g),
             bullets := filter active (map (Bullet_update deltaTime canvasSize) (bullets g))\<rparr>)"

subsection \<open>Collisions, scoring, fragmentation\<close>

text \<open>\<^verbatim>\<open>xs.splice(i, 1)\<close>: the list without its element at index \<open>i\<close>.\<close>

definition splice1 :: "nat \<Rightarrow> 'a list \<Rightarrow> 'a list" where
  "splice1 i xs = take i xs @ drop (Suc i) xs"

definition addScore :: "AsteroidSize \<Rightarrow> Game \<Rightarrow> Game" where
  "addScore asteroidSize g =
     (case asteroidSize of
        large \<Rightarrow> g\<lparr>score := score g + 20\<rparr>
      | medium \<Rightarrow> g\<lparr>score := score g + 50\<rparr>
      | small \<Rightarrow> g\<lparr>score := score g + 100\<rparr>)"

fun pieceLoop :: "(nat \<Rightarrow> real) \<Rightarrow> Asteroid \<Rightarrow> AsteroidSize \<Rightarrow> nat \<Rightarrow> Game \<Rightarrow> Game" where
  "pieceLoop rand asteroid newSize 0 g = g"
| "pieceLoop rand asteroid newSize (Suc n) g =
     (let k = randomCalls g;
          newAsteroid = new_Asteroid (fst (position asteroid)) (snd (position asteroid)) newSize
                          (rand k) (rand (k + 1)) (rand (k + 2))
      in pieceLoop rand asteroid newSize n
           (g\<lparr>asteroids := asteroids g @ [newAsteroid], randomCalls := k + 3\<rparr>))"

definition breakAsteroid :: "(nat \<Rightarrow> real) \<Rightarrow> Asteroid \<Rightarrow> Game \<Rightarrow> Game" where
  "breakAsteroid rand asteroid g =
     (let sz = asize asteroid;
          (newSize, numPieces) =
             (if sz = large then (Some medium, 2)
              else if sz = medium then (Some small, 2)
              else (None, 0 :: nat))
      in case newSize of
           None \<Rightarrow> g
         | Some ns \<Rightarrow> pieceLoop rand asteroid ns numPieces g)"

text \<open>
  The inner loop of the bullet-asteroid pass, for the bullet at index \<open>i\<close>: \<open>j\<close>
  runs from the last asteroid down to index 0, and the first hit ends the loop
  (\<^verbatim>\<open>break\<close>). The counter argument is \<open>j + 1\<close>.
\<close>

fun asteroidLoop :: "(nat \<Rightarrow> real) \<Rightarrow> nat \<Rightarrow> Bullet \<Rightarrow> nat \<Rightarrow> Game \<Rightarrow> Game" where
  "asteroidLoop rand i bullet 0 g = g"
| "asteroidLoop rand i bullet (Suc j) g =
     (let asteroid = asteroids g ! j
      in if collidesWith (ABullet bullet) (AnAsteroid asteroid) then
           breakAsteroid rand asteroid
             (addScore (asize asteroid)
               (g\<lparr>bullets := splice1 i (bullets g), asteroids := splice1 j (asteroids g)\<rparr>))
         else asteroidLoop rand i bullet j g)"

text \<open>The body of the outer loop, and the outer loop (counter argument \<open>i + 1\<close>).\<close>

definition bulletBody :: "(nat \<Rightarrow> real) \<Rightarrow> nat \<Rightarrow> Game \<Rightarrow> Game" where
  "bulletBody rand i g =
     (let bullet = bullets g ! i
      in asteroidLoop rand i bullet (length (asteroids g)) g)"

fun bulletLoop :: "(nat \<Rightarrow> real) \<Rightarrow> nat \<Rightarrow> Game \<Rightarrow> Game" where
  "bulletLoop rand 0 g = g"
| "bulletLoop rand (Suc i) g = bulletLoop rand i (bulletBody rand i g)"

definition bulletAsteroidPass :: "(nat \<Rightarrow> real) \<Rightarrow> Game \<Rightarrow> Game" where
  "bulletAsteroidPass rand g = bulletLoop rand (length (bullets g)) g"

text \<open>
  \<^verbatim>\<open>gameOver\<close> also submits the score to the high-score list and sets the status
  text; neither is read by the simulation.
\<close>

definition gameOver :: "Game \<Rightarrow> Game" where
  "gameOver g = g\<lparr>state := GAME_OVER\<rparr>"

definition loseLife :: "Game \<Rightarrow> Game" where
  "loseLife g =
     (let g1 = g\<lparr>lives := lives g - 1\<rparr>
      in if lives g1 \<le> 0 then gameOver g1
         else
           let canvasSize = canvas g1
           in g1\<lparr>ship := (ship g1)\<lparr>position := (fst canvasSize / 2, snd canvasSize / 2),
                                     velocity := (0, 0), rotation := 0\<rparr>\<rparr>)"

text \<open>The \<^verbatim>\<open>for ... of\<close> loop over the asteroids, left at the first hit.\<close>

fun shipLoop :: "Asteroid list \<Rightarrow> Game \<Rightarrow> Game" where
  "shipLoop [] g = g"
| "shipLoop (asteroid # rest) g =
     (if collidesWith (AShip (ship g)) (AnAsteroid asteroid) then loseLife g
      else shipLoop rest g)"

definition shipAsteroidPass :: "Game \<Rightarrow> Game" where
  "shipAsteroidPass g = shipLoop (asteroids g) g"

definition nextLevel :: "(nat \<Rightarrow> real) \<Rightarrow> Game \<Rightarrow> Game option" where
  "nextLevel rand g = createAsteroids rand (g\<lparr>level := level g + 1\<rparr>)"

definition checkCollisions :: "(nat \<Rightarrow> real) \<Rightarrow> Game \<Rightarrow> Game option" where
  "checkCollisions rand g =
     (if state g \<noteq> PLAYING then Some g
      else
        let g1 = bulletAsteroidPass rand g;
            g2 = shipAsteroidPass g1
        in if length (asteroids g2) = 0 then nextLevel rand g2 else Some g2)"

subsection \<open>The frame callback and the event loop\<close>

text \<open>
  \<^verbatim>\<open>Game.update(currentTime)\<close> without its rendering. \<open>None\<close>: the frame never
  ends, because \<^verbatim>\<open>createAsteroids\<close> does not.
\<close>

definition Game_update :: "(nat \<Rightarrow> real) \<Rightarrow> real \<Rightarrow> Input \<Rightarrow> Game \<Rightarrow> Game option" where
  "Game_update rand currentTime inp g =
     (let deltaTime = (currentTime - lastTime g) / 1000;
          g0 = g\<lparr>lastTime := currentTime\<rparr>
      in checkCollisions rand (updateGameObjects deltaTime (handleInput deltaTime inp g0)))"

datatype Event =
    Frame real Input
  | SpaceDown
  | KeyPDown
  | WindowResize Vector2D

fun handleEvent :: "(nat \<Rightarrow> real) \<Rightarrow> Event \<Rightarrow> Game \<Rightarrow> Game option" where
  "handleEvent rand (Frame currentTime inp) g = Game_update rand currentTime inp g"
| "handleEvent rand SpaceDown g = onSpaceDown rand g"
| "handleEvent rand KeyPDown g = Some (onKeyPDown g)"
| "handleEvent rand (WindowResize newSize) g = Some (onResize newSize g)"

fun run :: "(nat \<Rightarrow> real) \<Rightarrow> Event list \<Rightarrow> Game \<Rightarrow> Game option" where
  "run rand [] g = Some g"
| "run rand (e # es) g =
     (case handleEvent rand e g of None \<Rightarrow> None | Some g' \<Rightarrow> run rand es g')"

section \<open>Notions used in the statements\<close>

text \<open>The Euclidean length of a vector: the speed of a velocity.\<close>

definition vlength :: "Vector2D \<Rightarrow> real" where
  "vlength v = sqrt (fst v * fst v + snd v * snd v)"

text \<open>
  The thrust step as the specification words it, with the acceleration proportional
  to the commanded thrust level, and \<^verbatim>\<open>Ship.update\<close> with that step in place of the
  program's. They are compared with the program's below.
\<close>

definition claimedThrustVelocity :: "real \<Rightarrow> Ship \<Rightarrow> Vector2D" where
  "claimedThrustVelocity deltaTime s =
     (fst (velocity s) + sin (rotation s) * thrustPower * thrust s * deltaTime,
      snd (velocity s) + (- cos (rotation s)) * thrustPower * thrust s * deltaTime)"

definition Ship_update_claimed :: "real \<Rightarrow> Vector2D \<Rightarrow> Ship \<Rightarrow> Ship" where
  "Ship_update_claimed deltaTime canvasSize s =
     wrapPosition canvasSize
       (integratePosition deltaTime
         (Ship_applyFriction (Ship_limitSpeed
            (if thrust s > 0 then s\<lparr>velocity := claimedThrustVelocity deltaTime s\<rparr> else s))))"

text \<open>
  The assumption on \<^verbatim>\<open>Math.random()\<close> under which the retry loop of
  \<^verbatim>\<open>createAsteroids\<close> ends for a ship at \<open>shipPos\<close>: from every call on, some later
  pair of draws is a point that is not within 100 of the ship on both axes.
\<close>

definition spawnable :: "(nat \<Rightarrow> real) \<Rightarrow> Vector2D \<Rightarrow> Vector2D \<Rightarrow> bool" where
  "spawnable rand canvasSize shipPos =
     (\<forall>k. \<exists>m. \<not> (\<bar>rand (k + 2 * m) * fst canvasSize - fst shipPos\<bar> < 100
                  \<and> \<bar>rand (k + 2 * m + 1) * snd canvasSize - snd shipPos\<bar> < 100))"

text \<open>\<^verbatim>\<open>Math.random()\<close> returns a number from 0 (inclusive) up to 1 (exclusive).\<close>

definition unitRandom :: "(nat \<Rightarrow> real) \<Rightarrow> bool" where
  "unitRandom rand = (\<forall>k. 0 \<le> rand k \<and> rand k < 1)"

text \<open>A point inside the closed canvas rectangle; a game whose entities all are.\<close>

definition inCanvas :: "Vector2D \<Rightarrow> Vector2D \<Rightarrow> bool" where
  "inCanvas canvasSize p =
     (0 \<le> fst p \<and> fst p \<le> fst canvasSize \<and> 0 \<le> snd p \<and> snd p \<le> snd canvasSize)"

definition inBounds :: "Game \<Rightarrow> bool" where
  "inBounds g =
     (inCanvas (canvas g) (position (ship g))
      \<and> list_all (\<lambda>a. inCanvas (canvas g) (position a)) (asteroids g)
      \<and> list_all (\<lambda>b. inCanvas (canvas g) (position b)) (bullets g))"

fun isResize :: "Event \<Rightarrow> bool" where
  "isResize (WindowResize newSize) = True"
| "isResize e = False"

text \<open>The time stamps of the frames of an event sequence, in order.\<close>

fun frameTimes :: "Event list \<Rightarrow> real list" where
  "frameTimes [] = []"
| "frameTimes (Frame t inp # es) = t # frameTimes es"
| "frameTimes (e # es) = frameTimes es"

text \<open>
  The values of deltaTime that successive frames compute, for a first \<open>lastTime\<close> and
  the time stamps of the frames; and a frame that spawns a bullet in its input phase.
\<close>

fun frameDeltas :: "real \<Rightarrow> real list \<Rightarrow> real list" where
  "frameDeltas l [] = []"
| "frameDeltas l (t # ts) = (t - l) / 1000 # frameDeltas t ts"

definition frameFires :: "real \<Rightarrow> Input \<Rightarrow> Game \<Rightarrow> bool" where
  "frameFires currentTime inp g =
     (bullets (handleInput ((currentTime - lastTime g) / 1000) inp (g\<lparr>lastTime := currentTime\<rparr>))
        \<noteq> bullets g)"

text \<open>The points of a size class and the size class of its fragments, as the specification lists them.\<close>

definition pointsFor :: "AsteroidSize \<Rightarrow> int" where
  "pointsFor sz = (case sz of large \<Rightarrow> 20 | medium \<Rightarrow> 50 | small \<Rightarrow> 100)"

definition fragmentCount :: "AsteroidSize \<Rightarrow> nat" where
  "fragmentCount sz = (case sz of large \<Rightarrow> 2 | medium \<Rightarrow> 2 | small \<Rightarrow> 0)"

definition fragmentSize :: "AsteroidSize \<Rightarrow> AsteroidSize" where
  "fragmentSize sz = (case sz of large \<Rightarrow> medium | medium \<Rightarrow> small | small \<Rightarrow> small)"

text \<open>
  A game in state PLAYING on a canvas of 800 by 600, the ship at rest in the centre,
  with the given asteroids and bullets: the concrete input of the examples below.
\<close>

definition playingGame :: "Asteroid list \<Rightarrow> Bullet list \<Rightarrow> Game" where
  "playingGame as bs =
     \<lparr>canvas = (800, 600), ship = new_Ship 400 300, asteroids = as, bullets = bs,
      state = PLAYING, score = 0, lives = 3, level = 1, lastTime = 0, fireDelay = 0,
      randomCalls = 0\<rparr>"

text \<open>A source of random numbers that returns 0 at every call.\<close>

definition zeroRandom :: "nat \<Rightarrow> real" where
  "zeroRandom k = 0"

definition noKeys :: Input where
  "noKeys = \<lparr>thrustPressed = False, leftPressed = False, rightPressed = False, firePressed = False\<rparr>"

definition fireHeld :: Input where
  "fireHeld = \<lparr>thrustPressed = False, leftPressed = False, rightPressed = False, firePressed = True\<rparr>"

section \<open>Properties of the entity model\<close>

subsection \<open>Screen wrap\<close>

lemma wrapAxis_eq:
  "wrapAxis bound p = (if p < 0 then bound else if p > bound then 0 else p)"
  by (simp add: wrapAxis_def Let_def)

text \<open>
  Claim C7. On each axis independently, \<^verbatim>\<open>wrapPosition\<close> sets a coordinate that is
  strictly below 0 to the bound of that axis, sets a coordinate that is strictly above
  the bound to 0 (the coordinate is not negative then, the bound being the width or
  the height of a canvas), and leaves a coordinate equal to 0 or equal to the bound
  (indeed any coordinate from 0 to the bound) as it is. The move is a teleport to the
  opposite edge: the overshoot is dropped, nothing is taken modulo the bound. Only the
  position of the object changes.
\<close>

theorem C7_screen_wrap:
  "(p < 0 \<longrightarrow> wrapAxis bound p = bound)
   \<and> (0 \<le> p \<and> bound < p \<longrightarrow> wrapAxis bound p = 0)
   \<and> (p = 0 \<or> p = bound \<longrightarrow> wrapAxis bound p = p)
   \<and> (0 \<le> p \<and> p \<le> bound \<longrightarrow> wrapAxis bound p = p)
   \<and> wrapPosition canvasSize obj =
       obj\<lparr>position := (wrapAxis (fst canvasSize) (fst (position obj)),
                         wrapAxis (snd canvasSize) (snd (position obj)))\<rparr>"
  by (auto simp: wrapAxis_def Let_def wrapPosition_def)

theorem C7_screen_wrap_witness:
  "wrapAxis 800 (- 1) = 800 \<and> wrapAxis 800 801 = 0 \<and> wrapAxis 800 0 = 0
   \<and> wrapAxis 800 800 = 800 \<and> wrapAxis 800 (- 250) = 800 \<and> wrapAxis 800 1050 = 0
   \<and> position (wrapPosition (800, 600) (new_Ship (- 1) 601)) = (800, 0)"
  using C7_screen_wrap [of "- 1" 800 "(800, 600)" "new_Ship (- 1) 601"]
    C7_screen_wrap [of 801 800] C7_screen_wrap [of 0 800] C7_screen_wrap [of 800 800]
    C7_screen_wrap [of "- 250" 800] C7_screen_wrap [of 1050 800]
  by (simp add: new_Ship_def wrapAxis_eq)

subsection \<open>Collision test\<close>

lemma dist_Complex:
  "dist (Complex a b) (Complex c d) = sqrt ((a - c) * (a - c) + (b - d) * (b - d))"
  by (simp add: dist_norm cmod_def power2_eq_square)

text \<open>
  Claim C6. Two entities collide exactly when the Euclidean distance between their
  positions (the distance of the two points in the plane, here the complex plane) is
  strictly less than the sum of their collision radii; at a distance equal to the sum
  they do not collide. The radius is 12 for the ship, 20 times the scale for an
  asteroid, which is 20, 12 and 6 for the large, medium and small asteroids that the
  constructor builds, and 2 for a bullet.
\<close>

theorem C6_collision_test:
  "(collidesWith a b \<longleftrightarrow>
      dist (Complex (fst (entityPosition a)) (snd (entityPosition a)))
           (Complex (fst (entityPosition b)) (snd (entityPosition b)))
        < getCollisionRadius a + getCollisionRadius b)
   \<and> getCollisionRadius (AShip s) = 12
   \<and> getCollisionRadius (AnAsteroid ast) = 20 * scale ast
   \<and> getCollisionRadius (AnAsteroid (new_Asteroid px py sz r0 r1 r2)) =
       (case sz of large \<Rightarrow> 20 | medium \<Rightarrow> 12 | small \<Rightarrow> 6)
   \<and> getCollisionRadius (ABullet blt) = 2
   \<and> \<not> collidesWith (AShip (new_Ship 0 0)) (ABullet (new_Bullet 14 0 0))
   \<and> collidesWith (AShip (new_Ship 0 0)) (ABullet (new_Bullet 13 0 0))"
  by (simp add: collidesWith_def collides_def Let_def dist_Complex
      Ship_getCollisionRadius_def Asteroid_getCollisionRadius_def Bullet_getCollisionRadius_def
      new_Asteroid_def new_Ship_def new_Bullet_def scaleOf_def split: AsteroidSize.splits)

subsection \<open>Ship.update\<close>

lemma vlength_rescale:
  assumes "0 < vlength v" "0 \<le> m"
  shows "vlength ((fst v / vlength v) * m, (snd v / vlength v) * m) = m"
proof -
  define l where "l = vlength v"
  have lpos: "0 < l" using assms(1) by (simp add: l_def)
  have l2: "l * l = fst v * fst v + snd v * snd v"
    unfolding l_def vlength_def by (simp add: add_nonneg_nonneg)
  have "(fst v / l * m) * (fst v / l * m) + (snd v / l * m) * (snd v / l * m)
        = (fst v * fst v) / (l * l) * (m * m) + (snd v * snd v) / (l * l) * (m * m)"
    by (simp add: ac_simps)
  also have "\<dots> = (fst v * fst v + snd v * snd v) / (l * l) * (m * m)"
    by (simp only: add_divide_distrib distrib_right)
  also have "\<dots> = (l * l) / (l * l) * (m * m)" by (simp only: l2)
  also have "\<dots> = m * m" using lpos by simp
  finally have "vlength ((fst v / l) * m, (snd v / l) * m) = sqrt (m * m)"
    by (simp add: vlength_def)
  thus ?thesis using assms(2) by (simp add: l_def)
qed

lemma Ship_applyThrust_on:
  "0 < thrust s \<Longrightarrow>
   Ship_applyThrust deltaTime s =
     s\<lparr>velocity := (fst (velocity s) + sin (rotation s) * thrustPower * deltaTime,
                     snd (velocity s) - cos (rotation s) * thrustPower * deltaTime)\<rparr>"
  by (simp add: Ship_applyThrust_def Let_def)

lemma Ship_limitSpeed_eq:
  "Ship_limitSpeed s =
     (if vlength (velocity s) > maxSpeed
      then s\<lparr>velocity := ((fst (velocity s) / vlength (velocity s)) * maxSpeed,
                           (snd (velocity s) / vlength (velocity s)) * maxSpeed)\<rparr>
      else s)"
  by (simp add: Ship_limitSpeed_def Let_def vlength_def)

lemma Ship_limitSpeed_bound: "vlength (velocity (Ship_limitSpeed s)) \<le> maxSpeed"
proof (cases "vlength (velocity s) > maxSpeed")
  case True
  hence pos: "0 < vlength (velocity s)" by (simp add: maxSpeed_def)
  have "vlength ((fst (velocity s) / vlength (velocity s)) * maxSpeed,
                 (snd (velocity s) / vlength (velocity s)) * maxSpeed) = maxSpeed"
    by (rule vlength_rescale[OF pos]) (simp add: maxSpeed_def)
  thus ?thesis using True by (simp add: Ship_limitSpeed_eq)
next
  case False thus ?thesis by (simp add: Ship_limitSpeed_eq)
qed

lemma Ship_update_eq:
  "Ship_update deltaTime canvasSize s =
     (let s2 = Ship_limitSpeed (Ship_applyThrust deltaTime s);
          v3 = (fst (velocity s2) * friction, snd (velocity s2) * friction);
          p = (fst (position s2) + fst v3 * deltaTime, snd (position s2) + snd v3 * deltaTime)
      in s2\<lparr>position := (wrapAxis (fst canvasSize) (fst p), wrapAxis (snd canvasSize) (snd p)),
            velocity := v3\<rparr>)"
  by (simp add: Ship_update_def wrapPosition_def integratePosition_def Ship_applyFriction_def Let_def)

text \<open>
  Claim C1, as amended. In every call of \<^verbatim>\<open>Ship.update\<close> with a commanded thrust
  level above 0, the velocity is first incremented by
  (sin rotation, - cos rotation) * thrustPower * deltaTime, whatever the level is (this
  is the increment the specification words exactly when the level is 1, the only
  positive level the game commands); then, if the speed exceeds maxSpeed, the velocity
  is rescaled by one factor to speed maxSpeed, the speed it is divided by being positive
  then; then the velocity is multiplied once by the friction constant, which is below 1
  and does not depend on deltaTime; then the position is incremented by the velocity
  times deltaTime and wrapped at the bounds: a coordinate below 0 becomes the bound of
  its axis, a coordinate above the bound becomes 0. Nothing else of the ship changes.
\<close>

theorem C1_ship_update:
  "0 < thrust s \<Longrightarrow>
   (let v1 = (fst (velocity s) + sin (rotation s) * thrustPower * deltaTime,
              snd (velocity s) - cos (rotation s) * thrustPower * deltaTime);
        v2 = (if vlength v1 > maxSpeed
              then ((fst v1 / vlength v1) * maxSpeed, (snd v1 / vlength v1) * maxSpeed) else v1);
        v3 = (fst v2 * friction, snd v2 * friction);
        p = (fst (position s) + fst v3 * deltaTime, snd (position s) + snd v3 * deltaTime)
    in velocity (Ship_applyThrust deltaTime s) = v1
     \<and> (thrust s = 1 \<longrightarrow> v1 = claimedThrustVelocity deltaTime s)
     \<and> velocity (Ship_limitSpeed (Ship_applyThrust deltaTime s)) = v2
     \<and> (vlength v1 > maxSpeed \<longrightarrow> 0 < vlength v1 \<and> vlength v2 = maxSpeed)
     \<and> vlength v2 \<le> maxSpeed
     \<and> friction < 1
     \<and> Ship_update deltaTime canvasSize s =
         s\<lparr>position := (wrapAxis (fst canvasSize) (fst p), wrapAxis (snd canvasSize) (snd p)),
           velocity := v3\<rparr>
     \<and> position (Ship_update deltaTime canvasSize s) =
         (if fst p < 0 then fst canvasSize else if fst p > fst canvasSize then 0 else fst p,
          if snd p < 0 then snd canvasSize else if snd p > snd canvasSize then 0 else snd p))"
proof -
  assume t: "0 < thrust s"
  define v1 where "v1 = (fst (velocity s) + sin (rotation s) * thrustPower * deltaTime,
              snd (velocity s) - cos (rotation s) * thrustPower * deltaTime)"
  define v2 where "v2 = (if vlength v1 > maxSpeed
              then ((fst v1 / vlength v1) * maxSpeed, (snd v1 / vlength v1) * maxSpeed) else v1)"
  have a: "Ship_applyThrust deltaTime s = s\<lparr>velocity := v1\<rparr>"
    unfolding v1_def by (rule Ship_applyThrust_on[OF t])
  have b: "thrust s = 1 \<longrightarrow> v1 = claimedThrustVelocity deltaTime s"
    by (simp add: v1_def claimedThrustVelocity_def)
  have l: "Ship_limitSpeed (s\<lparr>velocity := v1\<rparr>) = s\<lparr>velocity := v2\<rparr>"
    by (simp add: Ship_limitSpeed_eq v2_def)
  have c: "vlength v1 > maxSpeed \<longrightarrow> 0 < vlength v1 \<and> vlength v2 = maxSpeed"
  proof
    assume g: "vlength v1 > maxSpeed"
    hence pos: "0 < vlength v1" by (simp add: maxSpeed_def)
    have "vlength ((fst v1 / vlength v1) * maxSpeed, (snd v1 / vlength v1) * maxSpeed) = maxSpeed"
      by (rule vlength_rescale[OF pos]) (simp add: maxSpeed_def)
    thus "0 < vlength v1 \<and> vlength v2 = maxSpeed" using pos g by (simp add: v2_def)
  qed
  have d: "vlength v2 \<le> maxSpeed"
    using Ship_limitSpeed_bound[of "s\<lparr>velocity := v1\<rparr>"] by (simp add: l)
  have f: "friction < 1" by (simp add: friction_def)
  have u: "Ship_update deltaTime canvasSize s =
      s\<lparr>position := (wrapAxis (fst canvasSize) (fst (position s) + fst v2 * friction * deltaTime),
                      wrapAxis (snd canvasSize) (snd (position s) + snd v2 * friction * deltaTime)),
        velocity := (fst v2 * friction, snd v2 * friction)\<rparr>"
    by (simp add: Ship_update_eq a l Let_def)
  have w: "position (Ship_update deltaTime canvasSize s) =
      (if fst (position s) + fst v2 * friction * deltaTime < 0 then fst canvasSize
       else if fst (position s) + fst v2 * friction * deltaTime > fst canvasSize then 0
       else fst (position s) + fst v2 * friction * deltaTime,
       if snd (position s) + snd v2 * friction * deltaTime < 0 then snd canvasSize
       else if snd (position s) + snd v2 * friction * deltaTime > snd canvasSize then 0
       else snd (position s) + snd v2 * friction * deltaTime)"
    by (simp only: u wrapAxis_eq) simp
  show ?thesis
    unfolding Let_def v1_def[symmetric]
    unfolding v2_def[symmetric]
    using a b c d f u l w by simp
qed

lemma sqrt_1600: "sqrt 1600 = 40"
  using real_sqrt_abs2 [of 40] by simp

lemma sqrt_400: "sqrt 400 = 20"
  using real_sqrt_abs2 [of 20] by simp

lemma sqrt_115600: "sqrt 115600 = 340"
  using real_sqrt_abs2 [of 340] by simp

text \<open>
  Two ships under thrust at the speed limit: one stays inside the canvas, one leaves it
  at the top and comes back at the bottom edge.
\<close>

theorem C1_ship_update_witness:
  "0 < thrust ((new_Ship 400 300)\<lparr>velocity := (0, - 300), thrust := 1\<rparr>)
   \<and> velocity (Ship_applyThrust (1 / 10) ((new_Ship 400 300)\<lparr>velocity := (0, - 300), thrust := 1\<rparr>))
        = (0, - 340)
   \<and> velocity (Ship_update (1 / 10) (800, 600) ((new_Ship 400 300)\<lparr>velocity := (0, - 300), thrust := 1\<rparr>))
        = (0, - 294)
   \<and> position (Ship_update (1 / 10) (800, 600) ((new_Ship 400 300)\<lparr>velocity := (0, - 300), thrust := 1\<rparr>))
        = (400, 1353 / 5)
   \<and> 0 < thrust ((new_Ship 400 20)\<lparr>velocity := (0, - 300), thrust := 1\<rparr>)
   \<and> velocity (Ship_update (1 / 10) (800, 600) ((new_Ship 400 20)\<lparr>velocity := (0, - 300), thrust := 1\<rparr>))
        = (0, - 294)
   \<and> position (Ship_update (1 / 10) (800, 600) ((new_Ship 400 20)\<lparr>velocity := (0, - 300), thrust := 1\<rparr>))
        = (400, 600)"
proof -
  have a: "0 < thrust ((new_Ship 400 300)\<lparr>velocity := (0, - 300), thrust := 1\<rparr>)
     \<and> velocity (Ship_applyThrust (1 / 10) ((new_Ship 400 300)\<lparr>velocity := (0, - 300), thrust := 1\<rparr>))
          = (0, - 340)
     \<and> velocity (Ship_update (1 / 10) (800, 600) ((new_Ship 400 300)\<lparr>velocity := (0, - 300), thrust := 1\<rparr>))
          = (0, - 294)
     \<and> position (Ship_update (1 / 10) (800, 600) ((new_Ship 400 300)\<lparr>velocity := (0, - 300), thrust := 1\<rparr>))
          = (400, 1353 / 5)"
    using C1_ship_update [of "(new_Ship 400 300)\<lparr>velocity := (0, - 300), thrust := 1\<rparr>" "1 / 10" "(800, 600)"]
    by (simp add: new_Ship_def Let_def thrustPower_def vlength_def sqrt_115600 maxSpeed_def
        friction_def wrapAxis_eq claimedThrustVelocity_def)
  have b: "0 < thrust ((new_Ship 400 20)\<lparr>velocity := (0, - 300), thrust := 1\<rparr>)
     \<and> velocity (Ship_update (1 / 10) (800, 600) ((new_Ship 400 20)\<lparr>velocity := (0, - 300), thrust := 1\<rparr>))
          = (0, - 294)
     \<and> position (Ship_update (1 / 10) (800, 600) ((new_Ship 400 20)\<lparr>velocity := (0, - 300), thrust := 1\<rparr>))
          = (400, 600)"
    using C1_ship_update [of "(new_Ship 400 20)\<lparr>velocity := (0, - 300), thrust := 1\<rparr>" "1 / 10" "(800, 600)"]
    by (simp add: new_Ship_def Let_def thrustPower_def vlength_def sqrt_115600 maxSpeed_def
        friction_def wrapAxis_eq claimedThrustVelocity_def)
  show ?thesis using a b by blast
qed

text \<open>
  The claim as stated fails at thrust level 1/2: the program adds the full
  acceleration, twice what the claim words.
\<close>

theorem C1_thrust_level_counterexample:
  "0 < thrust (Ship_setThrust (1 / 2) (new_Ship 400 300))
   \<and> velocity (Ship_applyThrust (1 / 10) (Ship_setThrust (1 / 2) (new_Ship 400 300))) = (0, - 40)
   \<and> claimedThrustVelocity (1 / 10) (Ship_setThrust (1 / 2) (new_Ship 400 300)) = (0, - 20)
   \<and> velocity (Ship_update (1 / 10) (800, 600) (Ship_setThrust (1 / 2) (new_Ship 400 300)))
       = (0, - 196 / 5)
   \<and> velocity (Ship_update_claimed (1 / 10) (800, 600) (Ship_setThrust (1 / 2) (new_Ship 400 300)))
       = (0, - 98 / 5)
   \<and> Ship_update (1 / 10) (800, 600) (Ship_setThrust (1 / 2) (new_Ship 400 300))
       \<noteq> Ship_update_claimed (1 / 10) (800, 600) (Ship_setThrust (1 / 2) (new_Ship 400 300))"
  by (simp add: Ship_setThrust_def new_Ship_def Ship_applyThrust_def Let_def thrustPower_def
      claimedThrustVelocity_def Ship_update_def Ship_update_claimed_def wrapPosition_def
      integratePosition_def Ship_applyFriction_def Ship_limitSpeed_def maxSpeed_def friction_def
      sqrt_1600 sqrt_400)

subsection \<open>Bullet.update and the expiry of bullets\<close>

lemma Bullet_update_eq:
  "Bullet_update deltaTime canvasSize b =
     (if lifeTime b + deltaTime > maxLifeTime
      then b\<lparr>lifeTime := lifeTime b + deltaTime, active := False\<rparr>
      else b\<lparr>lifeTime := lifeTime b + deltaTime,
             position := (wrapAxis (fst canvasSize) (fst (position b) + fst (velocity b) * deltaTime),
                          wrapAxis (snd canvasSize) (snd (position b) + snd (velocity b) * deltaTime))\<rparr>)"
  by (simp add: Bullet_update_def Let_def wrapPosition_def integratePosition_def)

lemma updated_bullets_alive:
  "list_all (\<lambda>b. active b \<and> lifeTime b \<le> maxLifeTime)
     (filter active (map (Bullet_update deltaTime canvasSize) bs))"
  by (induction bs) (auto simp: Bullet_update_eq)

lemma handleInput_state: "state (handleInput deltaTime inp g) = state g"
  by (simp add: handleInput_def Let_def fireBullet_def)

text \<open>
  Claim C9. Every call of \<^verbatim>\<open>Bullet.update\<close> adds deltaTime to the bullet's lifetime.
  If the lifetime then exceeds the maximum of 2 seconds, the bullet is deactivated and
  nothing else of it changes, its position included. Otherwise its position is
  incremented by velocity times deltaTime and wrapped at the bounds: a coordinate below
  0 becomes the bound of its axis, a coordinate above the bound becomes 0. In a PLAYING
  frame, \<^verbatim>\<open>updateGameObjects\<close> keeps exactly the updated bullets that are active, so a
  bullet deactivated by its update is gone from the collection before the collision
  pass of that frame, which runs on the result of \<^verbatim>\<open>updateGameObjects\<close>.
\<close>

theorem C9_bullet_update:
  "lifeTime (Bullet_update deltaTime canvasSize b) = lifeTime b + deltaTime
   \<and> maxLifeTime = 2
   \<and> (lifeTime b + deltaTime > maxLifeTime \<longrightarrow>
        Bullet_update deltaTime canvasSize b
          = b\<lparr>lifeTime := lifeTime b + deltaTime, active := False\<rparr>
        \<and> position (Bullet_update deltaTime canvasSize b) = position b)
   \<and> (lifeTime b + deltaTime \<le> maxLifeTime \<longrightarrow>
        (let px = fst (position b) + fst (velocity b) * deltaTime;
             py = snd (position b) + snd (velocity b) * deltaTime
         in Bullet_update deltaTime canvasSize b
              = b\<lparr>lifeTime := lifeTime b + deltaTime,
                  position :=
                    (if px < 0 then fst canvasSize else if px > fst canvasSize then 0 else px,
                     if py < 0 then snd canvasSize else if py > snd canvasSize then 0 else py)\<rparr>))
   \<and> (state g = PLAYING \<longrightarrow>
        bullets (updateGameObjects deltaTime g)
          = filter active (map (Bullet_update deltaTime (canvas g)) (bullets g))
        \<and> list_all (\<lambda>b. active b \<and> lifeTime b \<le> maxLifeTime)
             (bullets (updateGameObjects deltaTime g)))
   \<and> Game_update rand currentTime inp g =
        checkCollisions rand
          (updateGameObjects ((currentTime - lastTime g) / 1000)
             (handleInput ((currentTime - lastTime g) / 1000) inp (g\<lparr>lastTime := currentTime\<rparr>)))"
proof -
  have "state g = PLAYING \<longrightarrow>
        bullets (updateGameObjects deltaTime g)
          = filter active (map (Bullet_update deltaTime (canvas g)) (bullets g))"
    by (simp add: updateGameObjects_def Let_def)
  moreover have "state g = PLAYING \<longrightarrow> list_all (\<lambda>b. active b \<and> lifeTime b \<le> maxLifeTime)
             (bullets (updateGameObjects deltaTime g))"
    using updated_bullets_alive by (simp add: updateGameObjects_def Let_def)
  moreover have "Game_update rand currentTime inp g =
        checkCollisions rand
          (updateGameObjects ((currentTime - lastTime g) / 1000)
             (handleInput ((currentTime - lastTime g) / 1000) inp (g\<lparr>lastTime := currentTime\<rparr>)))"
    by (simp add: Game_update_def Let_def)
  moreover have "maxLifeTime = 2" by (simp add: maxLifeTime_def)
  ultimately show ?thesis by (simp add: Bullet_update_eq wrapAxis_eq Let_def)
qed

text \<open>Four bullets: one expires, one flies on, one leaves at the top, one at the right.\<close>

theorem C9_bullet_update_witness:
  "Bullet_update (1 / 10) (800, 600) ((new_Bullet 400 300 0)\<lparr>lifeTime := 39 / 20\<rparr>)
     = ((new_Bullet 400 300 0)\<lparr>lifeTime := 39 / 20\<rparr>)\<lparr>lifeTime := 41 / 20, active := False\<rparr>
   \<and> Bullet_update (1 / 10) (800, 600) (new_Bullet 400 300 0)
     = (new_Bullet 400 300 0)\<lparr>lifeTime := 1 / 10, position := (400, 260)\<rparr>
   \<and> Bullet_update (1 / 10) (800, 600) (new_Bullet 400 10 0)
     = (new_Bullet 400 10 0)\<lparr>lifeTime := 1 / 10, position := (400, 600)\<rparr>
   \<and> Bullet_update (1 / 10) (800, 600) (new_Bullet 790 300 (pi / 2))
     = (new_Bullet 790 300 (pi / 2))\<lparr>lifeTime := 1 / 10, position := (0, 300)\<rparr>
   \<and> bullets (updateGameObjects (1 / 10)
        (playingGame [] [(new_Bullet 400 300 0)\<lparr>lifeTime := 39 / 20\<rparr>, new_Bullet 400 10 0,
                         new_Bullet 790 300 (pi / 2)]))
     = [(new_Bullet 400 10 0)\<lparr>lifeTime := 1 / 10, position := (400, 600)\<rparr>,
        (new_Bullet 790 300 (pi / 2))\<lparr>lifeTime := 1 / 10, position := (0, 300)\<rparr>]"
proof -
  let ?old = "(new_Bullet 400 300 0)\<lparr>lifeTime := 39 / 20\<rparr>"
  let ?g = "playingGame [] [?old, new_Bullet 400 10 0, new_Bullet 790 300 (pi / 2)]"
  have v: "lifeTime ?old = 39 / 20" "lifeTime (new_Bullet 400 300 0) = 0"
    "lifeTime (new_Bullet 400 10 0) = 0" "lifeTime (new_Bullet 790 300 (pi / 2)) = 0"
    "position (new_Bullet 400 300 0) = (400, 300)" "velocity (new_Bullet 400 300 0) = (0, - 400)"
    "position (new_Bullet 400 10 0) = (400, 10)" "velocity (new_Bullet 400 10 0) = (0, - 400)"
    "position (new_Bullet 790 300 (pi / 2)) = (790, 300)"
    "velocity (new_Bullet 790 300 (pi / 2)) = (400, 0)"
    by (simp_all add: new_Bullet_def)
  have m: "maxLifeTime = 2" by (simp add: maxLifeTime_def)
  have g: "state ?g = PLAYING" "canvas ?g = (800, 600)"
    "bullets ?g = [?old, new_Bullet 400 10 0, new_Bullet 790 300 (pi / 2)]"
    by (simp_all add: playingGame_def)
  have a: "Bullet_update (1 / 10) (800, 600) ?old = ?old\<lparr>lifeTime := 41 / 20, active := False\<rparr>"
    using C9_bullet_update [where b = ?old and deltaTime = "1 / 10" and canvasSize = "(800, 600)"]
    by (simp add: v m)
  have b: "Bullet_update (1 / 10) (800, 600) (new_Bullet 400 300 0)
     = (new_Bullet 400 300 0)\<lparr>lifeTime := 1 / 10, position := (400, 260)\<rparr>"
    using C9_bullet_update [where b = "new_Bullet 400 300 0" and deltaTime = "1 / 10" and canvasSize = "(800, 600)"]
    by (simp add: v m Let_def)
  have c: "Bullet_update (1 / 10) (800, 600) (new_Bullet 400 10 0)
     = (new_Bullet 400 10 0)\<lparr>lifeTime := 1 / 10, position := (400, 600)\<rparr>"
    using C9_bullet_update [where b = "new_Bullet 400 10 0" and deltaTime = "1 / 10" and canvasSize = "(800, 600)"]
    by (simp add: v m Let_def)
  have d: "Bullet_update (1 / 10) (800, 600) (new_Bullet 790 300 (pi / 2))
     = (new_Bullet 790 300 (pi / 2))\<lparr>lifeTime := 1 / 10, position := (0, 300)\<rparr>"
    using C9_bullet_update [where b = "new_Bullet 790 300 (pi / 2)" and deltaTime = "1 / 10" and canvasSize = "(800, 600)"]
    by (simp add: v m Let_def)
  have act: "active ((new_Bullet 400 10 0)\<lparr>lifeTime := 1 / 10, position := (400, 600)\<rparr>)"
    "active ((new_Bullet 790 300 (pi / 2))\<lparr>lifeTime := 1 / 10, position := (0, 300)\<rparr>)"
    by (simp_all add: new_Bullet_def)
  have e: "bullets (updateGameObjects (1 / 10) ?g)
     = [(new_Bullet 400 10 0)\<lparr>lifeTime := 1 / 10, position := (400, 600)\<rparr>,
        (new_Bullet 790 300 (pi / 2))\<lparr>lifeTime := 1 / 10, position := (0, 300)\<rparr>]"
  proof -
    from C9_bullet_update [where g = ?g and deltaTime = "1 / 10" and b = ?old and canvasSize = "(800, 600)"
        and rand = zeroRandom and currentTime = 0 and inp = fireHeld] g(1)
    have "bullets (updateGameObjects (1 / 10) ?g)
            = filter active (map (Bullet_update (1 / 10) (canvas ?g)) (bullets ?g))"
      by blast
    thus ?thesis by (simp add: g(2,3) a c d act)
  qed
  show ?thesis using a b c d e by simp
qed

subsection \<open>The ship-asteroid pass\<close>

lemma collides_iff:
  "collides p r q s \<longleftrightarrow>
     0 < r + s \<and> (fst p - fst q) * (fst p - fst q) + (snd p - snd q) * (snd p - snd q) < (r + s) * (r + s)"
proof -
  define d where "d = (fst p - fst q) * (fst p - fst q) + (snd p - snd q) * (snd p - snd q)"
  have d0: "0 \<le> d" by (simp add: d_def)
  have "sqrt d < r + s \<longleftrightarrow> 0 < r + s \<and> d < (r + s) * (r + s)"
  proof (cases "0 < r + s")
    case True
    hence "sqrt ((r + s) * (r + s)) = r + s" by simp
    hence "sqrt d < r + s \<longleftrightarrow> sqrt d < sqrt ((r + s) * (r + s))" by simp
    thus ?thesis using True by (simp only: real_sqrt_less_iff) simp
  next
    case False
    have "0 \<le> sqrt d" using d0 by simp
    thus ?thesis using False by linarith
  qed
  thus ?thesis by (simp add: collides_def Let_def d_def)
qed

lemma shipLoop_eq:
  "shipLoop as g = (if list_ex (\<lambda>a. collidesWith (AShip (ship g)) (AnAsteroid a)) as then loseLife g else g)"
  by (induction as) auto



section \<open>Properties of the game\<close>

subsection \<open>The asteroid field\<close>

lemma pickSpawn_result:
  assumes "pickSpawn rand c sp k = Some r"
  shows "\<exists>i. r = (rand i * fst c, rand (i + 1) * snd c, i + 2) \<and> k \<le> i
        \<and> \<not> (\<bar>rand i * fst c - fst sp\<bar> < 100 \<and> \<bar>rand (i + 1) * snd c - snd sp\<bar> < 100)"
proof (rule pickSpawn.raw_induct[OF _ assms])
  fix f :: "(nat \<Rightarrow> real) \<Rightarrow> Vector2D \<Rightarrow> Vector2D \<Rightarrow> nat \<Rightarrow> (real \<times> real \<times> nat) option"
    and rand :: "nat \<Rightarrow> real" and c sp :: Vector2D and k :: nat and r :: "real \<times> real \<times> nat"
  assume 1: "\<And>c sp k b y. f c sp k b = Some y \<Longrightarrow> \<exists>i. y = (c i * fst sp, c (i + 1) * snd sp, i + 2) \<and> b \<le> i
        \<and> \<not> (\<bar>c i * fst sp - fst k\<bar> < 100 \<and> \<bar>c (i + 1) * snd sp - snd k\<bar> < 100)"
    "(let px = rand k * fst c; py = rand (k + 1) * snd c
      in if \<bar>px - fst sp\<bar> < 100 \<and> \<bar>py - snd sp\<bar> < 100
         then f rand c sp (k + 2)
         else Some (px, py, k + 2)) = Some r"
  show "\<exists>i. r = (rand i * fst c, rand (i + 1) * snd c, i + 2) \<and> k \<le> i
        \<and> \<not> (\<bar>rand i * fst c - fst sp\<bar> < 100 \<and> \<bar>rand (i + 1) * snd c - snd sp\<bar> < 100)"
  proof (cases "\<bar>rand k * fst c - fst sp\<bar> < 100 \<and> \<bar>rand (k + 1) * snd c - snd sp\<bar> < 100")
    case True
    with 1(2) have "f rand c sp (k + 2) = Some r" by (simp add: Let_def)
    from 1(1)[OF this] obtain i where
      "r = (rand i * fst c, rand (i + 1) * snd c, i + 2)" "k + 2 \<le> i"
      "\<not> (\<bar>rand i * fst c - fst sp\<bar> < 100 \<and> \<bar>rand (i + 1) * snd c - snd sp\<bar> < 100)"
      by blast
    thus ?thesis by (intro exI[of _ i]) simp
  next
    case False
    with 1(2) have "r = (rand k * fst c, rand (k + 1) * snd c, k + 2)" by (auto simp: Let_def)
    thus ?thesis using False by (intro exI[of _ k]) simp
  qed
qed

lemma pickSpawn_terminates:
  assumes "\<not> (\<bar>rand (k + 2 * m) * fst c - fst sp\<bar> < 100 \<and> \<bar>rand (k + 2 * m + 1) * snd c - snd sp\<bar> < 100)"
  shows "\<exists>r. pickSpawn rand c sp k = Some r"
  using assms
proof (induction m arbitrary: k)
  case 0
  thus ?case by (subst pickSpawn.simps) (auto simp: Let_def)
next
  case (Suc m)
  have "\<exists>r. pickSpawn rand c sp (k + 2) = Some r"
    using Suc.prems by (intro Suc.IH) (simp add: algebra_simps)
  thus ?case by (subst pickSpawn.simps) (auto simp: Let_def)
qed


lemma createLoop_result:
  "createLoop rand n g = Some g' \<Longrightarrow>
     \<exists>new k. g' = g\<lparr>asteroids := asteroids g @ new, randomCalls := k\<rparr> \<and> length new = n
        \<and> list_all (\<lambda>a. asize a = large
              \<and> (\<exists>i j. position a = (rand i * fst (canvas g), rand j * snd (canvas g)))) new"
proof (induction n arbitrary: g)
  case 0
  hence "g' = g\<lparr>asteroids := asteroids g @ [], randomCalls := randomCalls g\<rparr>" by simp
  thus ?case by (intro exI[of _ "[]"] exI[of _ "randomCalls g"]) simp
next
  case (Suc n)
  from Suc.prems obtain r where r: "pickSpawn rand (canvas g) (position (ship g)) (randomCalls g) = Some r"
    by (auto split: option.splits)
  from pickSpawn_result[OF r] obtain i where
    i: "r = (rand i * fst (canvas g), rand (i + 1) * snd (canvas g), i + 2)" by blast
  define a0 where "a0 = new_Asteroid (rand i * fst (canvas g)) (rand (i + 1) * snd (canvas g)) large
                           (rand (i + 2)) (rand (i + 2 + 1)) (rand (i + 2 + 2))"
  define g1 where "g1 = g\<lparr>asteroids := asteroids g @ [a0], randomCalls := i + 2 + 3\<rparr>"
  have step: "createLoop rand n g1 = Some g'"
    using Suc.prems r i by (simp add: g1_def a0_def)
  from Suc.IH[OF step] obtain new k where
    n: "g' = g1\<lparr>asteroids := asteroids g1 @ new, randomCalls := k\<rparr>" "length new = n"
       "list_all (\<lambda>a. asize a = large
              \<and> (\<exists>i j. position a = (rand i * fst (canvas g1), rand j * snd (canvas g1)))) new"
    by blast
  have a0p: "asize a0 = large \<and> (\<exists>i j. position a0 = (rand i * fst (canvas g), rand j * snd (canvas g)))"
    by (auto simp: a0_def new_Asteroid_def Let_def)
  have "g' = g\<lparr>asteroids := asteroids g @ (a0 # new), randomCalls := k\<rparr>"
    using n(1) by (simp add: g1_def)
  moreover have "length (a0 # new) = Suc n" using n(2) by simp
  moreover have "list_all (\<lambda>a. asize a = large
              \<and> (\<exists>i j. position a = (rand i * fst (canvas g), rand j * snd (canvas g)))) (a0 # new)"
    using n(3) a0p by (simp add: g1_def)
  ultimately show ?case by blast
qed

lemma createLoop_terminates:
  "spawnable rand (canvas g) (position (ship g)) \<Longrightarrow> \<exists>g'. createLoop rand n g = Some g'"
proof (induction n arbitrary: g)
  case 0 show ?case by simp
next
  case (Suc n)
  from Suc.prems obtain m where
    "\<not> (\<bar>rand (randomCalls g + 2 * m) * fst (canvas g) - fst (position (ship g))\<bar> < 100
        \<and> \<bar>rand (randomCalls g + 2 * m + 1) * snd (canvas g) - snd (position (ship g))\<bar> < 100)"
    unfolding spawnable_def by blast
  from pickSpawn_terminates[OF this] obtain r where
    r: "pickSpawn rand (canvas g) (position (ship g)) (randomCalls g) = Some r" by blast
  obtain px py k where rr: "r = (px, py, k)" by (cases r) auto
  define g1 where "g1 = g\<lparr>asteroids := asteroids g @
                   [new_Asteroid px py large (rand k) (rand (k + 1)) (rand (k + 2))],
               randomCalls := k + 3\<rparr>"
  have "spawnable rand (canvas g1) (position (ship g1))" using Suc.prems by (simp add: g1_def)
  from Suc.IH[OF this] obtain g' where "createLoop rand n g1 = Some g'" by blast
  thus ?case using r rr by (simp add: g1_def)
qed

lemma createAsteroids_result:
  "createAsteroids rand g = Some g' \<Longrightarrow>
     \<exists>new k. g' = g\<lparr>asteroids := new, randomCalls := k\<rparr> \<and> length new = nat (4 + level g)
        \<and> list_all (\<lambda>a. asize a = large
              \<and> (\<exists>i j. position a = (rand i * fst (canvas g), rand j * snd (canvas g)))) new"
  unfolding createAsteroids_def Let_def
  by (drule createLoop_result) auto

lemma createAsteroids_terminates:
  "spawnable rand (canvas g) (position (ship g)) \<Longrightarrow> \<exists>g'. createAsteroids rand g = Some g'"
  unfolding createAsteroids_def Let_def
  by (rule createLoop_terminates) simp

text \<open>
  The retry loop has no bound: where every draw is within 100 of the ship on both axes it
  never ends. On a canvas of 150 by 150 that is every draw, so the constructor does not
  return there.
\<close>

lemma pickSpawn_never_ends:
  assumes "\<forall>i. \<bar>rand i * fst c - fst sp\<bar> < 100 \<and> \<bar>rand (i + 1) * snd c - snd sp\<bar> < 100"
  shows "pickSpawn rand c sp k = None"
proof (rule ccontr)
  assume "pickSpawn rand c sp k \<noteq> None"
  then obtain r where "pickSpawn rand c sp k = Some r" by auto
  from pickSpawn_result[OF this] assms show False by blast
qed

lemma small_canvas_never_starts:
  assumes "unitRandom rand"
  shows "new_Game rand (150, 150) = None"
proof -
  have r: "\<And>i. 0 \<le> rand i \<and> rand i < 1" using assms by (simp add: unitRandom_def)
  have "\<forall>i. \<bar>rand i * fst (150 :: real, 150 :: real) - fst (75 :: real, 75 :: real)\<bar> < 100
          \<and> \<bar>rand (i + 1) * snd (150 :: real, 150 :: real) - snd (75 :: real, 75 :: real)\<bar> < 100"
  proof
    fix i
    have "0 \<le> rand i * 150 \<and> rand i * 150 < 150" using r[of i] by simp
    moreover have "0 \<le> rand (i + 1) * 150 \<and> rand (i + 1) * 150 < 150" using r[of "i + 1"] by simp
    ultimately show "\<bar>rand i * fst (150 :: real, 150 :: real) - fst (75 :: real, 75 :: real)\<bar> < 100
          \<and> \<bar>rand (i + 1) * snd (150 :: real, 150 :: real) - snd (75 :: real, 75 :: real)\<bar> < 100"
      by (simp add: abs_less_iff)
  qed
  from pickSpawn_never_ends[OF this, of 0]
  show ?thesis
    by (simp add: new_Game_def setupGame_def createAsteroids_def Let_def new_Ship_def eval_nat_numeral)
qed

subsection \<open>Fragmentation and the bullet loop\<close>

lemma pieceLoop_result:
  "\<exists>frags k. pieceLoop rand a ns n g = g\<lparr>asteroids := asteroids g @ frags, randomCalls := k\<rparr>
      \<and> length frags = n
      \<and> list_all (\<lambda>f. asize f = ns \<and> position f = position a) frags"
proof (induction n arbitrary: g)
  case 0
  have "pieceLoop rand a ns 0 g = g\<lparr>asteroids := asteroids g @ [], randomCalls := randomCalls g\<rparr>"
    by simp
  thus ?case by (intro exI[of _ "[]"] exI[of _ "randomCalls g"]) simp
next
  case (Suc n)
  define f0 where "f0 = new_Asteroid (fst (position a)) (snd (position a)) ns
        (rand (randomCalls g)) (rand (randomCalls g + 1)) (rand (randomCalls g + 2))"
  define g1 where "g1 = g\<lparr>asteroids := asteroids g @ [f0], randomCalls := randomCalls g + 3\<rparr>"
  from Suc.IH[of g1] obtain frags k where
    f: "pieceLoop rand a ns n g1 = g1\<lparr>asteroids := asteroids g1 @ frags, randomCalls := k\<rparr>"
       "length frags = n" "list_all (\<lambda>f. asize f = ns \<and> position f = position a) frags"
    by blast
  have f0p: "asize f0 = ns \<and> position f0 = position a"
    by (simp add: f0_def new_Asteroid_def Let_def)
  have "pieceLoop rand a ns (Suc n) g = g\<lparr>asteroids := asteroids g @ (f0 # frags), randomCalls := k\<rparr>"
    using f(1) by (simp add: Let_def g1_def f0_def)
  moreover have "length (f0 # frags) = Suc n" using f(2) by simp
  moreover have "list_all (\<lambda>f. asize f = ns \<and> position f = position a) (f0 # frags)"
    using f(3) f0p by simp
  ultimately show ?case by blast
qed

lemma breakAsteroid_result:
  "\<exists>frags k. breakAsteroid rand a g = g\<lparr>asteroids := asteroids g @ frags, randomCalls := k\<rparr>
      \<and> length frags = fragmentCount (asize a)
      \<and> list_all (\<lambda>f. asize f = fragmentSize (asize a) \<and> position f = position a) frags"
proof (cases "asize a")
  case large
  from pieceLoop_result[of rand a medium 2 g] show ?thesis
    using large by (simp add: breakAsteroid_def fragmentCount_def fragmentSize_def)
next
  case medium
  from pieceLoop_result[of rand a small 2 g] show ?thesis
    using medium by (simp add: breakAsteroid_def fragmentCount_def fragmentSize_def)
next
  case small
  have "breakAsteroid rand a g = g\<lparr>asteroids := asteroids g @ [], randomCalls := randomCalls g\<rparr>"
    using small by (simp add: breakAsteroid_def)
  thus ?thesis using small
    by (intro exI[of _ "[]"] exI[of _ "randomCalls g"]) (simp add: fragmentCount_def)
qed

lemma addScore_eq: "addScore sz g = g\<lparr>score := score g + pointsFor sz\<rparr>"
  by (cases sz) (simp_all add: addScore_def pointsFor_def)



text \<open>The fields no collision pass of the bullets touches.\<close>

lemma breakAsteroid_frame:
  "canvas (breakAsteroid rand a g) = canvas g \<and> ship (breakAsteroid rand a g) = ship g
   \<and> state (breakAsteroid rand a g) = state g \<and> lives (breakAsteroid rand a g) = lives g
   \<and> level (breakAsteroid rand a g) = level g \<and> lastTime (breakAsteroid rand a g) = lastTime g
   \<and> fireDelay (breakAsteroid rand a g) = fireDelay g \<and> score (breakAsteroid rand a g) = score g
   \<and> bullets (breakAsteroid rand a g) = bullets g"
proof -
  from breakAsteroid_result[of rand a g] obtain frags k where
    "breakAsteroid rand a g = g\<lparr>asteroids := asteroids g @ frags, randomCalls := k\<rparr>" by blast
  thus ?thesis by simp
qed

lemma asteroidLoop_frame:
  "canvas (asteroidLoop rand i b n g) = canvas g \<and> ship (asteroidLoop rand i b n g) = ship g
   \<and> state (asteroidLoop rand i b n g) = state g \<and> lives (asteroidLoop rand i b n g) = lives g
   \<and> level (asteroidLoop rand i b n g) = level g \<and> lastTime (asteroidLoop rand i b n g) = lastTime g
   \<and> fireDelay (asteroidLoop rand i b n g) = fireDelay g"
  by (induction n) (simp_all add: Let_def breakAsteroid_frame addScore_eq)

lemma bulletLoop_frame:
  "canvas (bulletLoop rand n g) = canvas g \<and> ship (bulletLoop rand n g) = ship g
   \<and> state (bulletLoop rand n g) = state g \<and> lives (bulletLoop rand n g) = lives g
   \<and> level (bulletLoop rand n g) = level g \<and> lastTime (bulletLoop rand n g) = lastTime g
   \<and> fireDelay (bulletLoop rand n g) = fireDelay g"
  by (induction n arbitrary: g) (simp_all add: bulletBody_def Let_def asteroidLoop_frame)

lemma shipAsteroidPass_asteroids: "asteroids (shipAsteroidPass g) = asteroids g"
  by (simp add: shipAsteroidPass_def shipLoop_eq loseLife_def gameOver_def Let_def)

lemma spawnable_zero: "spawnable (\<lambda>k. 0) (800, 600) (400, 300)"
  by (simp add: spawnable_def)

lemma last_asteroid_shot:
  "bulletAsteroidPass (\<lambda>k. 0) (playingGame [new_Asteroid 100 100 small 0 0 0] [new_Bullet 100 100 0])
     = (playingGame [] [])\<lparr>score := 100\<rparr>"
  by (simp add: bulletAsteroidPass_def bulletBody_def playingGame_def Let_def collidesWith_def
      collides_iff new_Asteroid_def new_Bullet_def Bullet_getCollisionRadius_def
      Asteroid_getCollisionRadius_def scaleOf_def splice1_def addScore_def breakAsteroid_def)

subsection \<open>Level clear\<close>

text \<open>
  Claim C5, as amended. Whenever the asteroid collection is empty at the end of the
  collision phase of a PLAYING frame (after the bullet-asteroid and the ship-asteroid
  pass) and the retry loop that places each new asteroid away from the ship ends (the
  assumption \<open>spawnable\<close> on the random source), the level is incremented by exactly
  1 and a fresh field is created that consists of large asteroids only, 4 + level of
  them, for the incremented level.
\<close>

theorem C5_level_clear:
  assumes "state g = PLAYING"
    and "asteroids (shipAsteroidPass (bulletAsteroidPass rand g)) = []"
    and "spawnable rand (canvas g) (position (ship g))"
  shows "\<exists>g'. checkCollisions rand g = Some g'
           \<and> level g' = level g + 1
           \<and> length (asteroids g') = nat (4 + level g')
           \<and> (1 \<le> level g \<longrightarrow> int (length (asteroids g')) = 4 + level g')
           \<and> list_all (\<lambda>a. asize a = large) (asteroids g')"
proof -
  define g1 where "g1 = bulletAsteroidPass rand g"
  have fr: "canvas g1 = canvas g" "ship g1 = ship g" "level g1 = level g"
    using bulletLoop_frame[of rand "length (bullets g)" g]
    by (simp_all add: g1_def bulletAsteroidPass_def)
  have e: "asteroids g1 = []" using assms(2) by (simp add: g1_def shipAsteroidPass_asteroids)
  hence g2: "shipAsteroidPass g1 = g1" by (simp add: shipAsteroidPass_def)
  have cc: "checkCollisions rand g = createAsteroids rand (g1\<lparr>level := level g1 + 1\<rparr>)"
    using assms(1) e g2 by (simp add: checkCollisions_def Let_def g1_def[symmetric] nextLevel_def)
  have "spawnable rand (canvas (g1\<lparr>level := level g1 + 1\<rparr>)) (position (ship (g1\<lparr>level := level g1 + 1\<rparr>)))"
    using assms(3) fr by simp
  from createAsteroids_terminates[OF this] obtain g' where
    g': "createAsteroids rand (g1\<lparr>level := level g1 + 1\<rparr>) = Some g'" by blast
  from createAsteroids_result[OF g'] obtain new k where
    n: "g' = g1\<lparr>level := level g1 + 1, asteroids := new, randomCalls := k\<rparr>"
       "length new = nat (4 + (level g1 + 1))"
       "list_all (\<lambda>a. asize a = large
              \<and> (\<exists>i j. position a = (rand i * fst (canvas g1), rand j * snd (canvas g1)))) new"
    by auto
  have "list_all (\<lambda>a. asize a = large) new" using n(3) by (simp add: list_all_iff)
  thus ?thesis using cc g' n(1,2) fr(3) by simp
qed

theorem C5_level_clear_witness:
  "\<exists>g'. checkCollisions (\<lambda>k. 0)
           (playingGame [new_Asteroid 100 100 small 0 0 0] [new_Bullet 100 100 0]) = Some g'
      \<and> level g' = 2 \<and> length (asteroids g') = 6 \<and> list_all (\<lambda>a. asize a = large) (asteroids g')"
proof -
  have a: "state (playingGame [new_Asteroid 100 100 small 0 0 0] [new_Bullet 100 100 0]) = PLAYING"
    by (simp add: playingGame_def)
  have b: "asteroids (shipAsteroidPass (bulletAsteroidPass (\<lambda>k. 0)
             (playingGame [new_Asteroid 100 100 small 0 0 0] [new_Bullet 100 100 0]))) = []"
    by (simp only: shipAsteroidPass_asteroids last_asteroid_shot) (simp add: playingGame_def)
  have c: "spawnable (\<lambda>k. 0)
             (canvas (playingGame [new_Asteroid 100 100 small 0 0 0] [new_Bullet 100 100 0]))
             (position (ship (playingGame [new_Asteroid 100 100 small 0 0 0] [new_Bullet 100 100 0])))"
    by (simp add: playingGame_def new_Ship_def spawnable_zero)
  have d: "level (playingGame [new_Asteroid 100 100 small 0 0 0] [new_Bullet 100 100 0]) = 1"
    by (simp add: playingGame_def)
  from C5_level_clear [OF a b c] obtain g' where
    g': "checkCollisions (\<lambda>k. 0)
           (playingGame [new_Asteroid 100 100 small 0 0 0] [new_Bullet 100 100 0]) = Some g'"
      "level g' = 2" "length (asteroids g') = nat (4 + level g')"
      "list_all (\<lambda>a. asize a = large) (asteroids g')"
    using d by auto
  from g'(2,3) have "length (asteroids g') = 6" by simp
  thus ?thesis using g'(1,2,4) by blast
qed

lemma pickSpawn_small_canvas:
  assumes "unitRandom rand"
  shows "pickSpawn rand (150, 150) (75, 75) k = None"
proof -
  have r: "\<And>i. 0 \<le> rand i \<and> rand i < 1" using assms by (simp add: unitRandom_def)
  have "\<forall>i. \<bar>rand i * fst (150 :: real, 150 :: real) - fst (75 :: real, 75 :: real)\<bar> < 100
          \<and> \<bar>rand (i + 1) * snd (150 :: real, 150 :: real) - snd (75 :: real, 75 :: real)\<bar> < 100"
  proof
    fix i
    have "0 \<le> rand i * 150 \<and> rand i * 150 < 150" using r[of i] by simp
    moreover have "0 \<le> rand (i + 1) * 150 \<and> rand (i + 1) * 150 < 150" using r[of "i + 1"] by simp
    ultimately show "\<bar>rand i * fst (150 :: real, 150 :: real) - fst (75 :: real, 75 :: real)\<bar> < 100
          \<and> \<bar>rand (i + 1) * snd (150 :: real, 150 :: real) - snd (75 :: real, 75 :: real)\<bar> < 100"
      by (simp add: abs_less_iff)
  qed
  thus ?thesis by (rule pickSpawn_never_ends)
qed

lemma unitRandom_zero: "unitRandom zeroRandom"
  by (simp add: unitRandom_def zeroRandom_def)

text \<open>On a canvas of 150 by 150 no restart and no level clear ever returns.\<close>

lemma restart_small_canvas:
  "unitRandom rand \<Longrightarrow> state g = GAME_OVER \<Longrightarrow> canvas g = (150, 150) \<Longrightarrow> onSpaceDown rand g = None"
  by (simp add: onSpaceDown_def resetGame_def setupGame_def createAsteroids_def Let_def new_Ship_def
      eval_nat_numeral pickSpawn_small_canvas)

lemma level_clear_small_canvas:
  "unitRandom rand \<Longrightarrow> canvas g = (150, 150) \<Longrightarrow> position (ship g) = (75, 75) \<Longrightarrow>
   0 \<le> level g \<Longrightarrow> nextLevel rand g = None"
proof -
  assume a: "unitRandom rand" "canvas g = (150, 150)" "position (ship g) = (75, 75)" "0 \<le> level g"
  obtain n where n: "nat (4 + (level g + 1)) = Suc n" using a(4) by (cases "nat (4 + (level g + 1))") auto
  have "createLoop rand (Suc n) (g\<lparr>level := level g + 1, asteroids := []\<rparr>) = None"
    by (simp add: a(2,3) pickSpawn_small_canvas[OF a(1)])
  hence "createLoop rand (nat (4 + (level g + 1))) (g\<lparr>level := level g + 1, asteroids := []\<rparr>) = None"
    by (simp only: n)
  thus ?thesis
    unfolding nextLevel_def createAsteroids_def Let_def by simp
qed

lemma last_asteroid_small_canvas:
  "bulletAsteroidPass zeroRandom
     ((playingGame [new_Asteroid 20 20 small 0 0 0] [new_Bullet 20 20 0])
        \<lparr>canvas := (150, 150), ship := new_Ship 75 75\<rparr>)
   = (playingGame [] [])\<lparr>canvas := (150, 150), ship := new_Ship 75 75, score := 100\<rparr>"
  by (simp add: bulletAsteroidPass_def bulletBody_def playingGame_def Let_def collidesWith_def
      collides_iff new_Asteroid_def new_Bullet_def Bullet_getCollisionRadius_def
      Asteroid_getCollisionRadius_def scaleOf_def splice1_def addScore_def breakAsteroid_def)

text \<open>
  Without the assumption the claim fails: on a canvas of 150 by 150 with the ship in the
  centre every point is within 100 of the ship on both axes. When a bullet destroys the
  last asteroid there, the asteroid collection is empty after both passes, the retry
  loop never ends, the collision phase does not return and no field is created.
\<close>

theorem C5_small_canvas_counterexample:
  "state ((playingGame [new_Asteroid 20 20 small 0 0 0] [new_Bullet 20 20 0])
            \<lparr>canvas := (150, 150), ship := new_Ship 75 75\<rparr>) = PLAYING
   \<and> asteroids (shipAsteroidPass (bulletAsteroidPass zeroRandom
        ((playingGame [new_Asteroid 20 20 small 0 0 0] [new_Bullet 20 20 0])
            \<lparr>canvas := (150, 150), ship := new_Ship 75 75\<rparr>))) = []
   \<and> checkCollisions zeroRandom
        ((playingGame [new_Asteroid 20 20 small 0 0 0] [new_Bullet 20 20 0])
            \<lparr>canvas := (150, 150), ship := new_Ship 75 75\<rparr>) = None"
proof -
  let ?g = "(playingGame [new_Asteroid 20 20 small 0 0 0] [new_Bullet 20 20 0])
            \<lparr>canvas := (150, 150), ship := new_Ship 75 75\<rparr>"
  let ?g1 = "(playingGame [] [])\<lparr>canvas := (150, 150), ship := new_Ship 75 75, score := 100\<rparr>"
  have s: "state ?g = PLAYING" by (simp add: playingGame_def)
  have p: "shipAsteroidPass ?g1 = ?g1" by (simp add: shipAsteroidPass_def playingGame_def)
  have e: "asteroids ?g1 = []" by (simp add: playingGame_def)
  have n: "nextLevel zeroRandom ?g1 = None"
    by (rule level_clear_small_canvas[OF unitRandom_zero]) (simp_all add: playingGame_def new_Ship_def)
  have c: "checkCollisions zeroRandom ?g = None"
    using s by (simp add: checkCollisions_def Let_def last_asteroid_small_canvas p e n)
  show ?thesis using s c by (simp add: last_asteroid_small_canvas p e)
qed

subsection \<open>The state machine\<close>

text \<open>
  Claim C3, as amended. The Space key (fire/start) in READY moves to PLAYING and changes
  nothing else. In GAME_OVER, when the retry loop that places the asteroids of the new
  field ends (the assumption \<open>spawnable\<close> on the random source), it resets the score
  to 0, the lives to 3 and the level to 1, clears the bullets, creates a new ship at the
  centre of the canvas and a new field (of 5 large asteroids) and moves to READY. In PLAYING and PAUSED the Space handler does nothing. The P
  key (pause toggle) moves from PLAYING to PAUSED and from PAUSED to PLAYING, changing
  only the state, and does nothing in READY and GAME_OVER. A frame in a state other
  than PLAYING runs no input processing, no entity update and no collision resolution:
  each of the three phases returns the game as it is, and the whole frame changes only
  the time stamp of the last frame.
\<close>

theorem C3_state_machine:
  "(state g = READY \<longrightarrow> onSpaceDown rand g = Some (g\<lparr>state := PLAYING\<rparr>))
   \<and> (state g = GAME_OVER \<and> spawnable rand (canvas g) (fst (canvas g) / 2, snd (canvas g) / 2) \<longrightarrow>
        (\<exists>new k. onSpaceDown rand g =
             Some (g\<lparr>score := 0, lives := 3, level := 1, state := READY, bullets := [],
                     ship := new_Ship (fst (canvas g) / 2) (snd (canvas g) / 2),
                     asteroids := new, randomCalls := k\<rparr>)
           \<and> length new = 5 \<and> list_all (\<lambda>a. asize a = large) new))
   \<and> (state g = PLAYING \<or> state g = PAUSED \<longrightarrow> onSpaceDown rand g = Some g)
   \<and> (state g = PLAYING \<longrightarrow> onKeyPDown g = g\<lparr>state := PAUSED\<rparr>)
   \<and> (state g = PAUSED \<longrightarrow> onKeyPDown g = g\<lparr>state := PLAYING\<rparr>)
   \<and> (state g = READY \<or> state g = GAME_OVER \<longrightarrow> onKeyPDown g = g)
   \<and> (state g \<noteq> PLAYING \<longrightarrow>
        handleInput deltaTime inp g = g \<and> updateGameObjects deltaTime g = g
        \<and> checkCollisions rand g = Some g
        \<and> Game_update rand currentTime inp g = Some (g\<lparr>lastTime := currentTime\<rparr>))"
proof -
  have reset: "state g = GAME_OVER \<and> spawnable rand (canvas g) (fst (canvas g) / 2, snd (canvas g) / 2) \<longrightarrow>
        (\<exists>new k. onSpaceDown rand g =
             Some (g\<lparr>score := 0, lives := 3, level := 1, state := READY, bullets := [],
                     ship := new_Ship (fst (canvas g) / 2) (snd (canvas g) / 2),
                     asteroids := new, randomCalls := k\<rparr>)
           \<and> length new = 5 \<and> list_all (\<lambda>a. asize a = large) new)"
  proof
    assume h: "state g = GAME_OVER \<and> spawnable rand (canvas g) (fst (canvas g) / 2, snd (canvas g) / 2)"
    define g0 where "g0 = g\<lparr>score := 0, lives := 3, level := 1, state := READY, bullets := [],
                     ship := new_Ship (fst (canvas g) / 2) (snd (canvas g) / 2)\<rparr>"
    have os: "onSpaceDown rand g = createAsteroids rand g0"
      using h by (simp add: onSpaceDown_def resetGame_def setupGame_def g0_def)
    have "spawnable rand (canvas g0) (position (ship g0))"
      using h by (simp add: g0_def new_Ship_def)
    from createAsteroids_terminates[OF this] obtain g' where g': "createAsteroids rand g0 = Some g'"
      by blast
    from createAsteroids_result[OF g'] obtain new k where
      n: "g' = g0\<lparr>asteroids := new, randomCalls := k\<rparr>" "length new = nat (4 + level g0)"
       "list_all (\<lambda>a. asize a = large
              \<and> (\<exists>i j. position a = (rand i * fst (canvas g0), rand j * snd (canvas g0)))) new"
      by blast
    have "list_all (\<lambda>a. asize a = large) new" using n(3) by (simp add: list_all_iff)
    moreover have "length new = 5" using n(2) by (simp add: g0_def)
    moreover have "onSpaceDown rand g = Some (g\<lparr>score := 0, lives := 3, level := 1, state := READY, bullets := [],
                     ship := new_Ship (fst (canvas g) / 2) (snd (canvas g) / 2),
                     asteroids := new, randomCalls := k\<rparr>)"
      using os g' n(1) by (simp add: g0_def)
    ultimately show "\<exists>new k. onSpaceDown rand g =
             Some (g\<lparr>score := 0, lives := 3, level := 1, state := READY, bullets := [],
                     ship := new_Ship (fst (canvas g) / 2) (snd (canvas g) / 2),
                     asteroids := new, randomCalls := k\<rparr>)
           \<and> length new = 5 \<and> list_all (\<lambda>a. asize a = large) new"
      by blast
  qed
  have keys: "(state g = READY \<longrightarrow> onSpaceDown rand g = Some (g\<lparr>state := PLAYING\<rparr>))
   \<and> (state g = PLAYING \<or> state g = PAUSED \<longrightarrow> onSpaceDown rand g = Some g)
   \<and> (state g = PLAYING \<longrightarrow> onKeyPDown g = g\<lparr>state := PAUSED\<rparr>)
   \<and> (state g = PAUSED \<longrightarrow> onKeyPDown g = g\<lparr>state := PLAYING\<rparr>)
   \<and> (state g = READY \<or> state g = GAME_OVER \<longrightarrow> onKeyPDown g = g)"
    by (auto simp: onSpaceDown_def onKeyPDown_def startGame_def pauseGame_def resumeGame_def)
  have ticks: "state g \<noteq> PLAYING \<longrightarrow>
        handleInput deltaTime inp g = g \<and> updateGameObjects deltaTime g = g
        \<and> checkCollisions rand g = Some g
        \<and> Game_update rand currentTime inp g = Some (g\<lparr>lastTime := currentTime\<rparr>)"
    by (simp add: handleInput_def updateGameObjects_def checkCollisions_def Game_update_def Let_def)
  show ?thesis using reset keys ticks by blast
qed

theorem C3_state_machine_witness:
  "onSpaceDown (\<lambda>k. 0) ((playingGame [] [])\<lparr>state := READY\<rparr>) = Some (playingGame [] [])
   \<and> (\<exists>new k. onSpaceDown (\<lambda>k. 0)
                 ((playingGame [] [new_Bullet 10 10 0])
                    \<lparr>state := GAME_OVER, score := 120, lives := 0, level := 3\<rparr>)
               = Some ((playingGame new [])\<lparr>state := READY, randomCalls := k\<rparr>)
          \<and> length new = 5 \<and> list_all (\<lambda>a. asize a = large) new)
   \<and> onSpaceDown (\<lambda>k. 0) (playingGame [] []) = Some (playingGame [] [])
   \<and> onKeyPDown (playingGame [] []) = (playingGame [] [])\<lparr>state := PAUSED\<rparr>
   \<and> onKeyPDown ((playingGame [] [])\<lparr>state := PAUSED\<rparr>) = playingGame [] []
   \<and> onKeyPDown ((playingGame [] [])\<lparr>state := GAME_OVER\<rparr>) = (playingGame [] [])\<lparr>state := GAME_OVER\<rparr>
   \<and> Game_update (\<lambda>k. 0) 1000
         \<lparr>thrustPressed = True, leftPressed = True, rightPressed = False, firePressed = True\<rparr>
         ((playingGame [] [])\<lparr>state := PAUSED\<rparr>)
       = Some ((playingGame [] [])\<lparr>state := PAUSED, lastTime := 1000\<rparr>)"
  using C3_state_machine [where g = "(playingGame [] [])\<lparr>state := READY\<rparr>" and rand = "\<lambda>k. 0"]
    C3_state_machine [where g = "(playingGame [] [new_Bullet 10 10 0])
                    \<lparr>state := GAME_OVER, score := 120, lives := 0, level := 3\<rparr>" and rand = "\<lambda>k. 0"]
    C3_state_machine [where g = "playingGame [] []" and rand = "\<lambda>k. 0"]
    C3_state_machine [where g = "(playingGame [] [])\<lparr>state := PAUSED\<rparr>" and rand = "\<lambda>k. 0"
      and currentTime = 1000
      and inp = "\<lparr>thrustPressed = True, leftPressed = True, rightPressed = False, firePressed = True\<rparr>"]
    C3_state_machine [where g = "(playingGame [] [])\<lparr>state := GAME_OVER\<rparr>" and rand = "\<lambda>k. 0"]
  by (simp add: playingGame_def spawnable_def)

lemma last_life_frame:
  "Game_update zeroRandom 100 noKeys ((playingGame [new_Asteroid 410 300 large 0 0 0] [])\<lparr>lives := 1\<rparr>)
   = Some ((playingGame [(new_Asteroid 410 300 large 0 0 0)\<lparr>position := (415, 300), rotation := - 1 / 10\<rparr>] [])
             \<lparr>lives := 0, state := GAME_OVER, lastTime := 100, fireDelay := - 1 / 10\<rparr>)"
  by (simp add: Game_update_def handleInput_def updateGameObjects_def checkCollisions_def Let_def
      playingGame_def noKeys_def new_Asteroid_def new_Ship_def
      Ship_setThrust_def Ship_update_def Ship_applyThrust_def Ship_limitSpeed_def
      Ship_applyFriction_def integratePosition_def wrapPosition_def wrapAxis_eq maxSpeed_def
      friction_def Asteroid_update_def
      bulletAsteroidPass_def shipAsteroidPass_def loseLife_def gameOver_def collidesWith_def collides_iff
      Ship_getCollisionRadius_def Asteroid_getCollisionRadius_def scaleOf_def)

text \<open>
  Without the assumption the claim fails: a frame in which the ship loses its last life
  ends in GAME_OVER; after a resize of the window to 150 by 150 the Space key starts the
  reset, the retry loop of the new field never ends, and the game never reaches READY.
\<close>

theorem C3_restart_counterexample:
  "run zeroRandom [Frame 100 noKeys] ((playingGame [new_Asteroid 410 300 large 0 0 0] [])\<lparr>lives := 1\<rparr>)
     = Some ((playingGame [(new_Asteroid 410 300 large 0 0 0)\<lparr>position := (415, 300), rotation := - 1 / 10\<rparr>] [])
             \<lparr>lives := 0, state := GAME_OVER, lastTime := 100, fireDelay := - 1 / 10\<rparr>)
   \<and> run zeroRandom [Frame 100 noKeys, WindowResize (150, 150), SpaceDown]
        ((playingGame [new_Asteroid 410 300 large 0 0 0] [])\<lparr>lives := 1\<rparr>) = None
   \<and> onSpaceDown zeroRandom
        ((playingGame [(new_Asteroid 410 300 large 0 0 0)\<lparr>position := (415, 300), rotation := - 1 / 10\<rparr>] [])
             \<lparr>lives := 0, state := GAME_OVER, lastTime := 100, fireDelay := - 1 / 10,
               canvas := (150, 150)\<rparr>) = None"
proof -
  let ?o = "(playingGame [(new_Asteroid 410 300 large 0 0 0)\<lparr>position := (415, 300), rotation := - 1 / 10\<rparr>] [])
             \<lparr>lives := 0, state := GAME_OVER, lastTime := 100, fireDelay := - 1 / 10\<rparr>"
  have r: "onSpaceDown zeroRandom (onResize (150, 150) ?o) = None"
    by (rule restart_small_canvas[OF unitRandom_zero]) (simp_all add: onResize_def playingGame_def)
  have eq: "onResize (150, 150) ?o = ?o\<lparr>canvas := (150, 150)\<rparr>" by (simp add: onResize_def)
  have r2: "onSpaceDown zeroRandom (?o\<lparr>canvas := (150, 150)\<rparr>) = None"
    using r unfolding eq .
  have f: "run zeroRandom [Frame 100 noKeys]
             ((playingGame [new_Asteroid 410 300 large 0 0 0] [])\<lparr>lives := 1\<rparr>) = Some ?o"
    by (simp add: last_life_frame)
  have g: "run zeroRandom [Frame 100 noKeys, WindowResize (150, 150), SpaceDown]
        ((playingGame [new_Asteroid 410 300 large 0 0 0] [])\<lparr>lives := 1\<rparr>) = None"
    using r by (simp add: last_life_frame)
  show ?thesis using f g r2 by blast
qed

subsection \<open>The bullet-asteroid pass\<close>

lemma asteroidLoop_cases:
  "(asteroidLoop rand i b n g = g
      \<and> (\<forall>j<n. \<not> collidesWith (ABullet b) (AnAsteroid (asteroids g ! j))))
   \<or> (\<exists>j<n. collidesWith (ABullet b) (AnAsteroid (asteroids g ! j))
        \<and> (\<forall>k. j < k \<and> k < n \<longrightarrow> \<not> collidesWith (ABullet b) (AnAsteroid (asteroids g ! k)))
        \<and> asteroidLoop rand i b n g =
            breakAsteroid rand (asteroids g ! j)
              (addScore (asize (asteroids g ! j))
                 (g\<lparr>bullets := splice1 i (bullets g), asteroids := splice1 j (asteroids g)\<rparr>)))"
proof (induction n)
  case 0 show ?case by simp
next
  case (Suc n)
  show ?case
  proof (cases "collidesWith (ABullet b) (AnAsteroid (asteroids g ! n))")
    case True
    hence "asteroidLoop rand i b (Suc n) g =
            breakAsteroid rand (asteroids g ! n)
              (addScore (asize (asteroids g ! n))
                 (g\<lparr>bullets := splice1 i (bullets g), asteroids := splice1 n (asteroids g)\<rparr>))"
      by (simp add: Let_def)
    with True show ?thesis by (intro disjI2 exI[of _ n]) (auto simp: Let_def)
  next
    case False
    hence eq: "asteroidLoop rand i b (Suc n) g = asteroidLoop rand i b n g" by (simp add: Let_def)
    from Suc.IH show ?thesis
    proof
      assume "asteroidLoop rand i b n g = g
        \<and> (\<forall>j<n. \<not> collidesWith (ABullet b) (AnAsteroid (asteroids g ! j)))"
      thus ?thesis using False eq by (auto simp: less_Suc_eq)
    next
      assume "\<exists>j<n. collidesWith (ABullet b) (AnAsteroid (asteroids g ! j))
        \<and> (\<forall>k. j < k \<and> k < n \<longrightarrow> \<not> collidesWith (ABullet b) (AnAsteroid (asteroids g ! k)))
        \<and> asteroidLoop rand i b n g =
            breakAsteroid rand (asteroids g ! j)
              (addScore (asize (asteroids g ! j))
                 (g\<lparr>bullets := splice1 i (bullets g), asteroids := splice1 j (asteroids g)\<rparr>))"
      then obtain j where j: "j < n" "collidesWith (ABullet b) (AnAsteroid (asteroids g ! j))"
        "\<forall>k. j < k \<and> k < n \<longrightarrow> \<not> collidesWith (ABullet b) (AnAsteroid (asteroids g ! k))"
        "asteroidLoop rand i b n g =
            breakAsteroid rand (asteroids g ! j)
              (addScore (asize (asteroids g ! j))
                 (g\<lparr>bullets := splice1 i (bullets g), asteroids := splice1 j (asteroids g)\<rparr>))"
        by blast
      have "\<forall>k. j < k \<and> k < Suc n \<longrightarrow> \<not> collidesWith (ABullet b) (AnAsteroid (asteroids g ! k))"
        using j(3) False by (auto simp: less_Suc_eq)
      thus ?thesis using j(1,2,4) eq by (intro disjI2 exI[of _ j]) simp
    qed
  qed
qed

text \<open>What one hit does to the game, with the fragments named.\<close>

lemma hit_result:
  "\<exists>frags k. breakAsteroid rand a
                (addScore (asize a) (g\<lparr>bullets := splice1 i (bullets g), asteroids := splice1 j (asteroids g)\<rparr>))
       = g\<lparr>bullets := splice1 i (bullets g), asteroids := splice1 j (asteroids g) @ frags,
            score := score g + pointsFor (asize a), randomCalls := k\<rparr>
     \<and> length frags = fragmentCount (asize a)
     \<and> list_all (\<lambda>f. asize f = fragmentSize (asize a) \<and> position f = position a) frags"
proof -
  define g1 where "g1 = addScore (asize a) (g\<lparr>bullets := splice1 i (bullets g), asteroids := splice1 j (asteroids g)\<rparr>)"
  from breakAsteroid_result[of rand a g1] obtain frags k where
    f: "breakAsteroid rand a g1 = g1\<lparr>asteroids := asteroids g1 @ frags, randomCalls := k\<rparr>"
       "length frags = fragmentCount (asize a)"
       "list_all (\<lambda>f. asize f = fragmentSize (asize a) \<and> position f = position a) frags"
    by blast
  have "breakAsteroid rand a g1 = g\<lparr>bullets := splice1 i (bullets g), asteroids := splice1 j (asteroids g) @ frags,
            score := score g + pointsFor (asize a), randomCalls := k\<rparr>"
    using f(1) by (simp add: g1_def addScore_eq)
  thus ?thesis using f(2,3) unfolding g1_def by blast
qed
















subsection \<open>Fire cooldown\<close>

lemma handleInput_lastTime: "lastTime (handleInput deltaTime inp g) = lastTime g"
  by (simp add: handleInput_def Let_def fireBullet_def)

lemma handleInput_fireDelay:
  "fireDelay (handleInput deltaTime inp g) =
     (if state g = PLAYING then
        (if firePressed inp \<and> fireDelay g - deltaTime \<le> 0 then maxFireDelay else fireDelay g - deltaTime)
      else fireDelay g)"
  by (auto simp: handleInput_def Let_def fireBullet_def)

lemma handleInput_bullets:
  "bullets (handleInput deltaTime inp g) =
     (if state g = PLAYING \<and> firePressed inp \<and> fireDelay g - deltaTime \<le> 0
      then bullets g @ [new_Bullet (fst (position (ship g))) (snd (position (ship g)))
                          (rotation (ship (handleInput deltaTime inp g)))]
      else bullets g)"
  by (simp add: handleInput_def Let_def fireBullet_def Ship_setThrust_def Ship_rotate_def)

lemma frameFires_iff:
  "frameFires t inp g \<longleftrightarrow>
     state g = PLAYING \<and> firePressed inp \<and> fireDelay g - (t - lastTime g) / 1000 \<le> 0"
  by (simp add: frameFires_def handleInput_bullets)

lemma loseLife_timers:
  "fireDelay (loseLife g) = fireDelay g \<and> lastTime (loseLife g) = lastTime g"
  by (simp add: loseLife_def gameOver_def Let_def)

lemma shipAsteroidPass_timers:
  "fireDelay (shipAsteroidPass g) = fireDelay g \<and> lastTime (shipAsteroidPass g) = lastTime g"
  by (simp add: shipAsteroidPass_def shipLoop_eq loseLife_timers)

lemma createAsteroids_timers:
  "createAsteroids rand g = Some g' \<Longrightarrow> fireDelay g' = fireDelay g \<and> lastTime g' = lastTime g"
  by (drule createAsteroids_result) auto

lemma checkCollisions_timers:
  assumes "checkCollisions rand g = Some g'"
  shows "fireDelay g' = fireDelay g \<and> lastTime g' = lastTime g"
proof (cases "state g = PLAYING")
  case False thus ?thesis using assms by (simp add: checkCollisions_def)
next
  case True
  define g2 where "g2 = shipAsteroidPass (bulletAsteroidPass rand g)"
  have t2: "fireDelay g2 = fireDelay g \<and> lastTime g2 = lastTime g"
    using bulletLoop_frame[of rand "length (bullets g)" g]
    by (simp add: g2_def shipAsteroidPass_timers bulletAsteroidPass_def)
  show ?thesis
  proof (cases "length (asteroids g2) = 0")
    case False
    hence "g' = g2" using assms True by (simp add: checkCollisions_def Let_def g2_def)
    thus ?thesis using t2 by simp
  next
    case e: True
    hence "createAsteroids rand (g2\<lparr>level := level g2 + 1\<rparr>) = Some g'"
      using assms True by (simp add: checkCollisions_def Let_def g2_def nextLevel_def)
    from createAsteroids_timers[OF this] show ?thesis using t2 by simp
  qed
qed

lemma updateGameObjects_timers:
  "fireDelay (updateGameObjects deltaTime g) = fireDelay g
   \<and> lastTime (updateGameObjects deltaTime g) = lastTime g"
  by (simp add: updateGameObjects_def Let_def)

lemma Game_update_timers:
  assumes "Game_update rand t inp g = Some g'"
  shows "lastTime g' = t
     \<and> fireDelay g' = fireDelay (handleInput ((t - lastTime g) / 1000) inp (g\<lparr>lastTime := t\<rparr>))"
  using checkCollisions_timers[OF assms[unfolded Game_update_def Let_def]]
  by (simp add: updateGameObjects_timers handleInput_lastTime)

lemma onSpaceDown_timers:
  assumes "onSpaceDown rand g = Some g'"
  shows "fireDelay g' = fireDelay g \<and> lastTime g' = lastTime g"
proof (cases "state g = GAME_OVER")
  case True
  hence "createAsteroids rand (g\<lparr>score := 0, lives := 3, level := 1, state := READY, bullets := [],
            ship := new_Ship (fst (canvas g) / 2) (snd (canvas g) / 2)\<rparr>) = Some g'"
    using assms by (simp add: onSpaceDown_def resetGame_def setupGame_def)
  from createAsteroids_timers[OF this] show ?thesis by simp
next
  case False
  thus ?thesis using assms by (auto simp: onSpaceDown_def startGame_def split: if_splits)
qed

text \<open>
  The cooldown invariant over any run of events with time stamps that do not decrease:
  the cooldown is at least its full length minus the time since \<open>t0\<close>.
\<close>

lemma run_cooldown:
  "run rand evs g = Some g' \<Longrightarrow> sorted (lastTime g # frameTimes evs) \<Longrightarrow> t0 \<le> lastTime g \<Longrightarrow>
   maxFireDelay - (lastTime g - t0) / 1000 \<le> fireDelay g \<Longrightarrow>
   maxFireDelay - (lastTime g' - t0) / 1000 \<le> fireDelay g'
   \<and> lastTime g' = last (lastTime g # frameTimes evs)"
proof (induction evs arbitrary: g)
  case Nil thus ?case by simp
next
  case (Cons e evs)
  from Cons.prems(1) obtain g1 where e: "handleEvent rand e g = Some g1" and r: "run rand evs g1 = Some g'"
    by (auto split: option.splits)
  have step: "sorted (lastTime g1 # frameTimes evs) \<and> t0 \<le> lastTime g1
      \<and> maxFireDelay - (lastTime g1 - t0) / 1000 \<le> fireDelay g1
      \<and> last (lastTime g1 # frameTimes evs) = last (lastTime g # frameTimes (e # evs))"
  proof (cases e)
    case (Frame t inp)
    hence u: "Game_update rand t inp g = Some g1" using e by simp
    from Game_update_timers[OF u] have
      lt: "lastTime g1 = t" and
      fd: "fireDelay g1 = fireDelay (handleInput ((t - lastTime g) / 1000) inp (g\<lparr>lastTime := t\<rparr>))"
      by simp_all
    have le: "lastTime g \<le> t" and s: "sorted (t # frameTimes evs)"
      using Cons.prems(2) Frame by simp_all
    have "maxFireDelay - (t - t0) / 1000 \<le> fireDelay g1"
      using Cons.prems(3,4) le unfolding fd handleInput_fireDelay
      by (auto simp: field_simps maxFireDelay_def)
    thus ?thesis using lt s le Cons.prems(3) Frame by simp
  next
    case SpaceDown
    hence "onSpaceDown rand g = Some g1" using e by simp
    from onSpaceDown_timers[OF this] show ?thesis using Cons.prems SpaceDown by simp
  next
    case KeyPDown
    hence "g1 = onKeyPDown g" using e by simp
    hence "fireDelay g1 = fireDelay g \<and> lastTime g1 = lastTime g"
      by (simp add: onKeyPDown_def pauseGame_def resumeGame_def)
    thus ?thesis using Cons.prems KeyPDown by simp
  next
    case (WindowResize c)
    hence "g1 = onResize c g" using e by simp
    hence "fireDelay g1 = fireDelay g \<and> lastTime g1 = lastTime g"
      by (simp add: onResize_def)
    thus ?thesis using Cons.prems WindowResize by simp
  qed
  from step have a: "sorted (lastTime g1 # frameTimes evs)" and b: "t0 \<le> lastTime g1"
    and c: "maxFireDelay - (lastTime g1 - t0) / 1000 \<le> fireDelay g1"
    and d: "last (lastTime g1 # frameTimes evs) = last (lastTime g # frameTimes (e # evs))"
    by blast+
  from Cons.IH[OF r a b c] show ?case unfolding d .
qed

lemma sum_frameDeltas:
  "sum_list (frameDeltas l ts) = (last (l # ts) - l) / 1000"
  by (induction ts arbitrary: l) (simp_all add: field_simps)

text \<open>
  Claim C8. The input phase of a frame spawns a bullet only in state PLAYING, with fire
  pressed and the cooldown, decremented by this frame's deltaTime, at most 0; then
  exactly one bullet is appended, at the ship's position, and the cooldown is set to
  0.15. In every other PLAYING frame, fire pressed or not, no bullet is spawned and the
  cooldown is decremented by deltaTime. Consequently, for a frame that spawns a bullet
  and any later frame that spawns one, whatever frames, key presses and resizes lie
  between them and whatever the inputs are (fire held throughout included), if the time
  stamps of the frames do not decrease, the values of deltaTime of the frames after the
  first up to the second add up to at least 0.15 seconds; the sum depends only on the
  two time stamps, not on how the frames divide the time.
\<close>

theorem C8_fire_rate:
  "(bullets (handleInput deltaTime inp g) \<noteq> bullets g \<longrightarrow>
      state g = PLAYING \<and> firePressed inp \<and> fireDelay g - deltaTime \<le> 0)
   \<and> (state g = PLAYING \<and> firePressed inp \<and> fireDelay g - deltaTime \<le> 0 \<longrightarrow>
        bullets (handleInput deltaTime inp g) =
          bullets g @ [new_Bullet (fst (position (ship g))) (snd (position (ship g)))
                         (rotation (ship (handleInput deltaTime inp g)))]
        \<and> fireDelay (handleInput deltaTime inp g) = maxFireDelay)
   \<and> (state g = PLAYING \<and> \<not> (firePressed inp \<and> fireDelay g - deltaTime \<le> 0) \<longrightarrow>
        bullets (handleInput deltaTime inp g) = bullets g
        \<and> fireDelay (handleInput deltaTime inp g) = fireDelay g - deltaTime)
   \<and> maxFireDelay = 15 / 100
   \<and> (frameFires t0 inp0 g0 \<and> Game_update rand t0 inp0 g0 = Some g1
        \<and> run rand evs g1 = Some g2 \<and> sorted (t0 # frameTimes evs @ [t])
        \<and> frameFires t inp2 g2 \<longrightarrow>
          maxFireDelay \<le> sum_list (frameDeltas t0 (frameTimes evs @ [t]))
          \<and> sum_list (frameDeltas t0 (frameTimes evs @ [t])) = (t - t0) / 1000)"
proof -
  have a: "bullets (handleInput deltaTime inp g) \<noteq> bullets g \<longrightarrow>
      state g = PLAYING \<and> firePressed inp \<and> fireDelay g - deltaTime \<le> 0"
    by (simp add: handleInput_bullets)
  have b: "state g = PLAYING \<and> firePressed inp \<and> fireDelay g - deltaTime \<le> 0 \<longrightarrow>
        bullets (handleInput deltaTime inp g) =
          bullets g @ [new_Bullet (fst (position (ship g))) (snd (position (ship g)))
                         (rotation (ship (handleInput deltaTime inp g)))]
        \<and> fireDelay (handleInput deltaTime inp g) = maxFireDelay"
    using handleInput_bullets[of deltaTime inp g] handleInput_fireDelay[of deltaTime inp g] by simp
  have c: "state g = PLAYING \<and> \<not> (firePressed inp \<and> fireDelay g - deltaTime \<le> 0) \<longrightarrow>
        bullets (handleInput deltaTime inp g) = bullets g
        \<and> fireDelay (handleInput deltaTime inp g) = fireDelay g - deltaTime"
    using handleInput_bullets[of deltaTime inp g] handleInput_fireDelay[of deltaTime inp g] by auto
  have d: "maxFireDelay = 15 / 100" by (simp add: maxFireDelay_def)
  have e: "frameFires t0 inp0 g0 \<and> Game_update rand t0 inp0 g0 = Some g1
        \<and> run rand evs g1 = Some g2 \<and> sorted (t0 # frameTimes evs @ [t])
        \<and> frameFires t inp2 g2 \<longrightarrow>
          maxFireDelay \<le> sum_list (frameDeltas t0 (frameTimes evs @ [t]))
          \<and> sum_list (frameDeltas t0 (frameTimes evs @ [t])) = (t - t0) / 1000"
  proof
    assume h: "frameFires t0 inp0 g0 \<and> Game_update rand t0 inp0 g0 = Some g1
        \<and> run rand evs g1 = Some g2 \<and> sorted (t0 # frameTimes evs @ [t])
        \<and> frameFires t inp2 g2"
    hence f0: "state g0 = PLAYING \<and> firePressed inp0 \<and> fireDelay g0 - (t0 - lastTime g0) / 1000 \<le> 0"
      by (simp add: frameFires_iff)
    from h have u: "Game_update rand t0 inp0 g0 = Some g1" by simp
    from Game_update_timers[OF u] f0 have g1: "lastTime g1 = t0" "fireDelay g1 = maxFireDelay"
      by (simp_all add: handleInput_fireDelay)
    from h have r: "run rand evs g1 = Some g2" by simp
    from h have s: "sorted (t0 # frameTimes evs @ [t])" by simp
    hence s1: "sorted (lastTime g1 # frameTimes evs)"
      by (simp add: g1 sorted_append)
    have p1: "t0 \<le> lastTime g1" and p2: "maxFireDelay - (lastTime g1 - t0) / 1000 \<le> fireDelay g1"
      by (simp_all add: g1)
    from run_cooldown[OF r s1 p1 p2] have
      cd: "maxFireDelay - (lastTime g2 - t0) / 1000 \<le> fireDelay g2" by blast
    from h have "fireDelay g2 - (t - lastTime g2) / 1000 \<le> 0" by (simp add: frameFires_iff)
    with cd have "maxFireDelay \<le> (t - t0) / 1000" by (simp add: field_simps)
    moreover have "sum_list (frameDeltas t0 (frameTimes evs @ [t])) = (t - t0) / 1000"
      by (simp add: sum_frameDeltas)
    ultimately show "maxFireDelay \<le> sum_list (frameDeltas t0 (frameTimes evs @ [t]))
          \<and> sum_list (frameDeltas t0 (frameTimes evs @ [t])) = (t - t0) / 1000"
      by simp
  qed
  show ?thesis using a b c d e by blast
qed

lemma demo_frame1:
  "Game_update (\<lambda>k. 0) 100 fireHeld (playingGame [new_Asteroid 700 500 large 0 0 0] [])
   = Some ((playingGame [(new_Asteroid 700 500 large 0 0 0)\<lparr>position := (705, 500), rotation := - 1 / 10\<rparr>]
                        [(new_Bullet 400 300 0)\<lparr>position := (400, 260), lifeTime := 1 / 10\<rparr>])
            \<lparr>lastTime := 100, fireDelay := 15 / 100\<rparr>)"
  by (simp add: Game_update_def handleInput_def updateGameObjects_def checkCollisions_def Let_def
      playingGame_def fireHeld_def fireBullet_def new_Bullet_def new_Asteroid_def new_Ship_def
      Ship_setThrust_def Ship_update_def Ship_applyThrust_def Ship_limitSpeed_def
      Ship_applyFriction_def integratePosition_def wrapPosition_def wrapAxis_eq maxSpeed_def
      friction_def Asteroid_update_def Bullet_update_def maxLifeTime_def maxFireDelay_def
      bulletAsteroidPass_def bulletBody_def shipAsteroidPass_def collidesWith_def collides_iff
      Ship_getCollisionRadius_def Asteroid_getCollisionRadius_def Bullet_getCollisionRadius_def
      scaleOf_def)


lemma demo_run:
  "run (\<lambda>k. 0) [KeyPDown, Frame 150 fireHeld, KeyPDown, Frame 200 fireHeld]
     ((playingGame [(new_Asteroid 700 500 large 0 0 0)\<lparr>position := (705, 500), rotation := - 1 / 10\<rparr>]
                        [(new_Bullet 400 300 0)\<lparr>position := (400, 260), lifeTime := 1 / 10\<rparr>])
            \<lparr>lastTime := 100, fireDelay := 15 / 100\<rparr>)
   = Some ((playingGame [(new_Asteroid 700 500 large 0 0 0)\<lparr>position := (1415 / 2, 500), rotation := - 3 / 20\<rparr>]
                        [(new_Bullet 400 300 0)\<lparr>position := (400, 240), lifeTime := 3 / 20\<rparr>])
            \<lparr>lastTime := 200, fireDelay := 1 / 10\<rparr>)"
  by (simp add: onKeyPDown_def pauseGame_def resumeGame_def
      Game_update_def handleInput_def updateGameObjects_def checkCollisions_def Let_def
      playingGame_def fireHeld_def fireBullet_def new_Bullet_def new_Asteroid_def new_Ship_def
      Ship_setThrust_def Ship_update_def Ship_applyThrust_def Ship_limitSpeed_def
      Ship_applyFriction_def integratePosition_def wrapPosition_def wrapAxis_eq maxSpeed_def
      friction_def Asteroid_update_def Bullet_update_def maxLifeTime_def maxFireDelay_def
      bulletAsteroidPass_def bulletBody_def shipAsteroidPass_def collidesWith_def collides_iff
      Ship_getCollisionRadius_def Asteroid_getCollisionRadius_def Bullet_getCollisionRadius_def
      scaleOf_def)

theorem C8_fire_rate_witness:
  "frameFires 100 fireHeld (playingGame [new_Asteroid 700 500 large 0 0 0] [])
   \<and> frameFires 300 fireHeld
        ((playingGame [(new_Asteroid 700 500 large 0 0 0)\<lparr>position := (1415 / 2, 500), rotation := - 3 / 20\<rparr>]
                        [(new_Bullet 400 300 0)\<lparr>position := (400, 240), lifeTime := 3 / 20\<rparr>])
            \<lparr>lastTime := 200, fireDelay := 1 / 10\<rparr>)
   \<and> maxFireDelay \<le> sum_list (frameDeltas 100 [150, 200, 300])
   \<and> sum_list (frameDeltas 100 [150, 200, 300]) = 1 / 5"
proof -
  let ?g0 = "playingGame [new_Asteroid 700 500 large 0 0 0] []"
  let ?g1 = "(playingGame [(new_Asteroid 700 500 large 0 0 0)\<lparr>position := (705, 500), rotation := - 1 / 10\<rparr>]
                        [(new_Bullet 400 300 0)\<lparr>position := (400, 260), lifeTime := 1 / 10\<rparr>])
            \<lparr>lastTime := 100, fireDelay := 15 / 100\<rparr>"
  let ?g2 = "(playingGame [(new_Asteroid 700 500 large 0 0 0)\<lparr>position := (1415 / 2, 500), rotation := - 3 / 20\<rparr>]
                        [(new_Bullet 400 300 0)\<lparr>position := (400, 240), lifeTime := 3 / 20\<rparr>])
            \<lparr>lastTime := 200, fireDelay := 1 / 10\<rparr>"
  let ?evs = "[KeyPDown, Frame 150 fireHeld, KeyPDown, Frame 200 fireHeld]"
  have f0: "frameFires 100 fireHeld ?g0"
    by (simp add: frameFires_iff playingGame_def fireHeld_def)
  have f2: "frameFires 300 fireHeld ?g2"
    by (simp add: frameFires_iff playingGame_def fireHeld_def)
  have s: "sorted (100 # frameTimes ?evs @ [300 :: real])" by simp
  have ft: "frameTimes ?evs @ [300] = [150, 200, 300]" by simp
  from C8_fire_rate [where ?t0.0 = 100 and ?inp0.0 = fireHeld and ?g0.0 = ?g0 and rand = "\<lambda>k. 0"
      and ?g1.0 = ?g1 and evs = ?evs and ?g2.0 = ?g2 and t = 300 and ?inp2.0 = fireHeld]
    f0 demo_frame1 demo_run s f2
  have "maxFireDelay \<le> sum_list (frameDeltas 100 (frameTimes ?evs @ [300]))
          \<and> sum_list (frameDeltas 100 (frameTimes ?evs @ [300])) = (300 - 100) / 1000"
    by blast
  thus ?thesis using f0 f2 unfolding ft by simp
qed

subsection \<open>Entities stay inside the canvas\<close>

lemma wrapAxis_in: "0 \<le> bound \<Longrightarrow> 0 \<le> wrapAxis bound p \<and> wrapAxis bound p \<le> bound"
  by (simp add: wrapAxis_eq)

lemma inCanvas_wrapPosition:
  "0 \<le> fst c \<Longrightarrow> 0 \<le> snd c \<Longrightarrow> inCanvas c (position (wrapPosition c obj))"
  by (simp add: inCanvas_def wrapPosition_def wrapAxis_in)

lemma Ship_update_in:
  "0 \<le> fst c \<Longrightarrow> 0 \<le> snd c \<Longrightarrow> inCanvas c (position (Ship_update deltaTime c s))"
  unfolding Ship_update_def by (rule inCanvas_wrapPosition)

lemma Asteroid_update_in:
  "0 \<le> fst c \<Longrightarrow> 0 \<le> snd c \<Longrightarrow> inCanvas c (position (Asteroid_update deltaTime c a))"
  unfolding Asteroid_update_def by (rule inCanvas_wrapPosition)

lemma Bullet_update_in:
  "0 \<le> fst c \<Longrightarrow> 0 \<le> snd c \<Longrightarrow> lifeTime b + deltaTime \<le> maxLifeTime \<Longrightarrow>
   inCanvas c (position (Bullet_update deltaTime c b))"
  by (simp add: Bullet_update_eq inCanvas_def wrapAxis_in)

lemma Bullet_update_kept_in:
  "0 \<le> fst c \<Longrightarrow> 0 \<le> snd c \<Longrightarrow> active (Bullet_update deltaTime c b) \<Longrightarrow>
   inCanvas c (position (Bullet_update deltaTime c b))"
  by (cases "lifeTime b + deltaTime \<le> maxLifeTime")
     (simp_all add: Bullet_update_in, simp add: Bullet_update_eq)

lemma handleInput_inBounds: "inBounds g \<Longrightarrow> inBounds (handleInput deltaTime inp g)"
  by (auto simp: inBounds_def handleInput_def Let_def fireBullet_def new_Bullet_def
      Ship_setThrust_def Ship_rotate_def)

lemma handleInput_canvas: "canvas (handleInput deltaTime inp g) = canvas g"
  by (simp add: handleInput_def Let_def fireBullet_def)

lemma updateGameObjects_canvas: "canvas (updateGameObjects deltaTime g) = canvas g"
  by (simp add: updateGameObjects_def Let_def)

lemma updateGameObjects_inBounds:
  assumes "0 \<le> fst (canvas g)" "0 \<le> snd (canvas g)" "inBounds g"
  shows "inBounds (updateGameObjects deltaTime g)"
proof (cases "state g = PLAYING")
  case False thus ?thesis using assms(3) by (simp add: updateGameObjects_def)
next
  case True
  have a: "list_all (\<lambda>a. inCanvas (canvas g) (position a))
             (map (Asteroid_update deltaTime (canvas g)) (asteroids g))"
    using assms(1,2) by (simp add: list_all_iff Asteroid_update_in)
  have b: "list_all (\<lambda>b. inCanvas (canvas g) (position b))
             (filter active (map (Bullet_update deltaTime (canvas g)) (bullets g)))"
    using assms(1,2) by (auto simp: list_all_iff Bullet_update_kept_in)
  show ?thesis using True a b assms(1,2)
    by (simp add: updateGameObjects_def Let_def inBounds_def Ship_update_in)
qed

lemma set_splice1: "set (splice1 i xs) \<subseteq> set xs"
  unfolding splice1_def using set_take_subset[of i xs] set_drop_subset[of "Suc i" xs] by auto

lemma list_all_splice1: "list_all P xs \<Longrightarrow> list_all P (splice1 i xs)"
  using set_splice1[of i xs] by (auto simp: list_all_iff)

lemma bulletBody_inBounds:
  assumes "inBounds g"
  shows "inBounds (bulletBody rand i g)"
proof -
  let ?b = "bullets g ! i"
  from asteroidLoop_cases[of rand i ?b "length (asteroids g)" g]
  show ?thesis
  proof
    assume "asteroidLoop rand i ?b (length (asteroids g)) g = g
      \<and> (\<forall>j<length (asteroids g). \<not> collidesWith (ABullet ?b) (AnAsteroid (asteroids g ! j)))"
    thus ?thesis using assms by (simp add: bulletBody_def Let_def)
  next
    assume "\<exists>j<length (asteroids g). collidesWith (ABullet ?b) (AnAsteroid (asteroids g ! j))
        \<and> (\<forall>k. j < k \<and> k < length (asteroids g) \<longrightarrow>
               \<not> collidesWith (ABullet ?b) (AnAsteroid (asteroids g ! k)))
        \<and> asteroidLoop rand i ?b (length (asteroids g)) g =
            breakAsteroid rand (asteroids g ! j)
              (addScore (asize (asteroids g ! j))
                 (g\<lparr>bullets := splice1 i (bullets g), asteroids := splice1 j (asteroids g)\<rparr>))"
    then obtain j where j: "j < length (asteroids g)"
      and eq: "bulletBody rand i g =
            breakAsteroid rand (asteroids g ! j)
              (addScore (asize (asteroids g ! j))
                 (g\<lparr>bullets := splice1 i (bullets g), asteroids := splice1 j (asteroids g)\<rparr>))"
      by (auto simp: bulletBody_def Let_def)
    from hit_result[where rand = rand and a = "asteroids g ! j" and g = g and i = i and j = j]
    obtain frags k where
      r: "bulletBody rand i g =
            g\<lparr>bullets := splice1 i (bullets g), asteroids := splice1 j (asteroids g) @ frags,
              score := score g + pointsFor (asize (asteroids g ! j)), randomCalls := k\<rparr>"
      and f: "list_all (\<lambda>f. asize f = fragmentSize (asize (asteroids g ! j))
                         \<and> position f = position (asteroids g ! j)) frags"
      unfolding eq by blast
    have pj: "inCanvas (canvas g) (position (asteroids g ! j))"
      using assms j by (simp add: inBounds_def list_all_length)
    have fr: "list_all (\<lambda>a. inCanvas (canvas g) (position a)) frags"
      using f pj by (auto simp: list_all_iff)
    show ?thesis using assms fr
      by (simp add: r inBounds_def list_all_splice1)
  qed
qed

lemma bulletBody_canvas: "canvas (bulletBody rand i g) = canvas g"
  by (simp add: bulletBody_def Let_def asteroidLoop_frame)

lemma bulletLoop_inBounds: "inBounds g \<Longrightarrow> inBounds (bulletLoop rand n g)"
  by (induction n arbitrary: g) (simp_all add: bulletBody_inBounds)

lemma shipAsteroidPass_inBounds:
  "0 \<le> fst (canvas g) \<Longrightarrow> 0 \<le> snd (canvas g) \<Longrightarrow> inBounds g \<Longrightarrow> inBounds (shipAsteroidPass g)"
  by (simp add: shipAsteroidPass_def shipLoop_eq loseLife_def gameOver_def Let_def inBounds_def
      inCanvas_def)

lemma shipAsteroidPass_canvas: "canvas (shipAsteroidPass g) = canvas g"
  by (simp add: shipAsteroidPass_def shipLoop_eq loseLife_def gameOver_def Let_def)

lemma createAsteroids_inBounds:
  assumes "createAsteroids rand g = Some g'" "unitRandom rand"
    "0 \<le> fst (canvas g)" "0 \<le> snd (canvas g)"
    "inCanvas (canvas g) (position (ship g))"
    "list_all (\<lambda>b. inCanvas (canvas g) (position b)) (bullets g)"
  shows "inBounds g' \<and> canvas g' = canvas g"
proof -
  from createAsteroids_result[OF assms(1)] obtain new k where
    n: "g' = g\<lparr>asteroids := new, randomCalls := k\<rparr>"
       "list_all (\<lambda>a. asize a = large
              \<and> (\<exists>i j. position a = (rand i * fst (canvas g), rand j * snd (canvas g)))) new"
    by blast
  have r: "\<And>i. 0 \<le> rand i \<and> rand i \<le> 1" using assms(2) by (auto simp: unitRandom_def less_imp_le)
  have "\<And>i j. inCanvas (canvas g) (rand i * fst (canvas g), rand j * snd (canvas g))"
    using r assms(3,4) by (simp add: inCanvas_def mult_left_le_one_le)
  hence "list_all (\<lambda>a. inCanvas (canvas g) (position a)) new"
    using n(2) by (auto simp: list_all_iff)
  thus ?thesis using assms(5,6) by (simp add: n(1) inBounds_def)
qed


lemma checkCollisions_inBounds:
  assumes "checkCollisions rand g = Some g'" "unitRandom rand"
    "0 \<le> fst (canvas g)" "0 \<le> snd (canvas g)" "inBounds g"
  shows "inBounds g' \<and> canvas g' = canvas g"
proof (cases "state g = PLAYING")
  case False thus ?thesis using assms by (simp add: checkCollisions_def)
next
  case True
  define g1 where "g1 = bulletAsteroidPass rand g"
  define g2 where "g2 = shipAsteroidPass g1"
  have c1: "canvas g1 = canvas g"
    using bulletLoop_frame[of rand "length (bullets g)" g] by (simp add: g1_def bulletAsteroidPass_def)
  have i1: "inBounds g1" using assms(5) by (simp add: g1_def bulletAsteroidPass_def bulletLoop_inBounds)
  have c2: "canvas g2 = canvas g" by (simp add: g2_def shipAsteroidPass_canvas c1)
  have i2: "inBounds g2" unfolding g2_def
    using assms(3,4) i1 by (intro shipAsteroidPass_inBounds) (simp_all add: c1)
  show ?thesis
  proof (cases "length (asteroids g2) = 0")
    case False
    hence "g' = g2" using assms(1) True by (simp add: checkCollisions_def Let_def g1_def g2_def)
    thus ?thesis using i2 c2 by simp
  next
    case e: True
    let ?g3 = "g2\<lparr>level := level g2 + 1\<rparr>"
    have ca: "createAsteroids rand ?g3 = Some g'"
      using assms(1) True e by (simp add: checkCollisions_def Let_def g1_def g2_def nextLevel_def)
    have "inBounds g' \<and> canvas g' = canvas ?g3"
      using i2 assms(2,3,4) c2 by (intro createAsteroids_inBounds[OF ca]) (simp_all add: inBounds_def)
    thus ?thesis using c2 by simp
  qed
qed

lemma Game_update_inBounds:
  assumes "Game_update rand t inp g = Some g'" "unitRandom rand"
    "0 \<le> fst (canvas g)" "0 \<le> snd (canvas g)" "inBounds g"
  shows "inBounds g' \<and> canvas g' = canvas g"
proof -
  let ?dt = "(t - lastTime g) / 1000"
  let ?g1 = "handleInput ?dt inp (g\<lparr>lastTime := t\<rparr>)"
  let ?g2 = "updateGameObjects ?dt ?g1"
  have i0: "inBounds (g\<lparr>lastTime := t\<rparr>)" using assms(5) by (simp add: inBounds_def)
  have c1: "canvas ?g1 = canvas g" by (simp add: handleInput_canvas)
  have i1: "inBounds ?g1" using i0 by (rule handleInput_inBounds)
  have c2: "canvas ?g2 = canvas g" by (simp add: updateGameObjects_canvas c1)
  have i2: "inBounds ?g2" using assms(3,4) i1 by (intro updateGameObjects_inBounds) (simp_all add: c1)
  have cc: "checkCollisions rand ?g2 = Some g'" using assms(1) by (simp add: Game_update_def Let_def)
  have "inBounds g' \<and> canvas g' = canvas ?g2"
    using assms(2,3,4) i2 by (intro checkCollisions_inBounds[OF cc]) (simp_all add: c2)
  thus ?thesis by (simp add: c2)
qed

lemma setupGame_inBounds:
  assumes "setupGame rand g = Some g'" "unitRandom rand"
    "0 \<le> fst (canvas g)" "0 \<le> snd (canvas g)"
    "list_all (\<lambda>b. inCanvas (canvas g) (position b)) (bullets g)"
  shows "inBounds g' \<and> canvas g' = canvas g"
proof -
  let ?g0 = "g\<lparr>ship := new_Ship (fst (canvas g) / 2) (snd (canvas g) / 2)\<rparr>"
  have ca: "createAsteroids rand ?g0 = Some g'" using assms(1) by (simp add: setupGame_def)
  have "inBounds g' \<and> canvas g' = canvas ?g0"
    using assms(2-5) by (intro createAsteroids_inBounds[OF ca]) (simp_all add: new_Ship_def inCanvas_def)
  thus ?thesis by simp
qed

lemma onSpaceDown_inBounds:
  assumes "onSpaceDown rand g = Some g'" "unitRandom rand"
    "0 \<le> fst (canvas g)" "0 \<le> snd (canvas g)" "inBounds g"
  shows "inBounds g' \<and> canvas g' = canvas g"
proof (cases "state g = GAME_OVER")
  case True
  let ?g0 = "g\<lparr>score := 0, lives := 3, level := 1, state := READY, bullets := []\<rparr>"
  have su: "setupGame rand ?g0 = Some g'"
    using assms(1) True by (simp add: onSpaceDown_def resetGame_def)
  have "inBounds g' \<and> canvas g' = canvas ?g0"
    using assms(2-4) by (intro setupGame_inBounds[OF su]) simp_all
  thus ?thesis by simp
next
  case False
  thus ?thesis using assms(1,5)
    by (auto simp: onSpaceDown_def startGame_def inBounds_def split: if_splits)
qed

lemma onKeyPDown_inBounds: "inBounds g \<Longrightarrow> inBounds (onKeyPDown g) \<and> canvas (onKeyPDown g) = canvas g"
  by (simp add: onKeyPDown_def pauseGame_def resumeGame_def inBounds_def)

text \<open>
  The invariant of a run without resize events: the canvas keeps its size and every
  entity stays inside it.
\<close>

lemma run_inBounds:
  "run rand evs g = Some g' \<Longrightarrow> unitRandom rand \<Longrightarrow> list_all (\<lambda>e. \<not> isResize e) evs \<Longrightarrow>
   0 \<le> fst (canvas g) \<Longrightarrow> 0 \<le> snd (canvas g) \<Longrightarrow> inBounds g \<Longrightarrow>
   inBounds g' \<and> canvas g' = canvas g"
proof (induction evs arbitrary: g)
  case Nil thus ?case by simp
next
  case (Cons e evs)
  from Cons.prems(1) obtain g1 where e: "handleEvent rand e g = Some g1" and r: "run rand evs g1 = Some g'"
    by (auto split: option.splits)
  have step: "inBounds g1 \<and> canvas g1 = canvas g"
  proof (cases e)
    case (Frame t inp)
    hence "Game_update rand t inp g = Some g1" using e by simp
    from Game_update_inBounds[OF this Cons.prems(2,4,5,6)] show ?thesis .
  next
    case SpaceDown
    hence "onSpaceDown rand g = Some g1" using e by simp
    from onSpaceDown_inBounds[OF this Cons.prems(2,4,5,6)] show ?thesis .
  next
    case KeyPDown
    hence "g1 = onKeyPDown g" using e by simp
    thus ?thesis using onKeyPDown_inBounds[OF Cons.prems(6)] by simp
  next
    case (WindowResize c)
    thus ?thesis using Cons.prems(3) by simp
  qed
  have "inBounds g' \<and> canvas g' = canvas g1"
    using Cons.prems(2,3,4,5) step by (intro Cons.IH[OF r]) simp_all
  thus ?case using step by simp
qed

lemma new_Game_inBounds:
  assumes "new_Game rand c = Some g0" "unitRandom rand" "0 \<le> fst c" "0 \<le> snd c"
  shows "inBounds g0 \<and> canvas g0 = c"
proof -
  let ?g = "\<lparr>canvas = c, ship = new_Ship 0 0, asteroids = [], bullets = [],
        state = READY, score = 0, lives = 3, level = 1, lastTime = 0, fireDelay = 0,
        randomCalls = 0\<rparr>"
  have su: "setupGame rand ?g = Some g0" using assms(1) by (simp add: new_Game_def)
  have "inBounds g0 \<and> canvas g0 = canvas ?g"
    using assms(2-4) by (intro setupGame_inBounds[OF su]) simp_all
  thus ?thesis by simp
qed

lemma pickSpawn_accept:
  "\<not> (\<bar>rand k * fst c - fst sp\<bar> < 100 \<and> \<bar>rand (k + 1) * snd c - snd sp\<bar> < 100) \<Longrightarrow>
   pickSpawn rand c sp k = Some (rand k * fst c, rand (k + 1) * snd c, k + 2)"
  by (subst pickSpawn.simps) (auto simp: Let_def)

lemma pickSpawn_zero:
  "pickSpawn zeroRandom (800, 600) (400, 300) k = Some (0, 0, k + 2)"
  using pickSpawn_accept [of zeroRandom k "(800, 600)" "(400, 300)"] by (simp add: zeroRandom_def)

lemma new_Game_zero:
  "new_Game zeroRandom (800, 600)
   = Some ((playingGame [new_Asteroid 0 0 large 0 0 0, new_Asteroid 0 0 large 0 0 0,
                         new_Asteroid 0 0 large 0 0 0, new_Asteroid 0 0 large 0 0 0,
                         new_Asteroid 0 0 large 0 0 0] [])
             \<lparr>state := READY, randomCalls := 25\<rparr>)"
  by (simp add: new_Game_def setupGame_def createAsteroids_def Let_def new_Ship_def
      pickSpawn_zero eval_nat_numeral playingGame_def) (simp add: zeroRandom_def)

lemma sqrt_25: "sqrt 25 = 5"
  using real_sqrt_abs2 [of 5] by simp

lemma ship_overshoots:
  "position (Ship_update 10 (800, 600) ((new_Ship 790 300)\<lparr>velocity := (3, 4)\<rparr>)) = (0, 1696 / 5)"
  by (simp add: Ship_update_def Ship_applyThrust_def Ship_limitSpeed_def Ship_applyFriction_def
      integratePosition_def wrapPosition_def wrapAxis_eq new_Ship_def Let_def maxSpeed_def
      friction_def sqrt_25)

text \<open>
  Claim C10, as amended. On a canvas of width and height at least 0, \<^verbatim>\<open>wrapPosition\<close>
  puts every coordinate into the closed interval from 0 to the bound, so after an update
  call, for any deltaTime, a ship and an asteroid are inside the canvas rectangle, and
  so is a bullet that moved in the call (a bullet that the call deactivates keeps its
  position). With the creation points inside the canvas (the centre for the ship, a
  random fraction of the size for a new asteroid, the destroyed asteroid's position for
  a fragment, the ship's position for a bullet), the game the constructor builds has
  every entity inside the canvas, and so has every state reached from such a game by
  frames and key presses, as long as the window is not resized.
\<close>

theorem C10_entities_in_canvas:
  "(0 \<le> fst c \<and> 0 \<le> snd c \<longrightarrow>
      inCanvas c (position (wrapPosition c obj))
      \<and> inCanvas c (position (Ship_update deltaTime c s))
      \<and> inCanvas c (position (Asteroid_update deltaTime c a))
      \<and> (lifeTime b + deltaTime \<le> maxLifeTime \<longrightarrow> inCanvas c (position (Bullet_update deltaTime c b)))
      \<and> (lifeTime b + deltaTime > maxLifeTime \<longrightarrow> position (Bullet_update deltaTime c b) = position b))
   \<and> (0 \<le> fst c \<and> 0 \<le> snd c \<and> unitRandom rand \<and> new_Game rand c = Some g0
        \<longrightarrow> inBounds g0 \<and> canvas g0 = c)
   \<and> (0 \<le> fst (canvas g) \<and> 0 \<le> snd (canvas g) \<and> unitRandom rand \<and> inBounds g
        \<and> list_all (\<lambda>e. \<not> isResize e) evs \<and> run rand evs g = Some g'
        \<longrightarrow> inBounds g' \<and> canvas g' = canvas g)"
proof -
  have a: "0 \<le> fst c \<and> 0 \<le> snd c \<longrightarrow>
      inCanvas c (position (wrapPosition c obj))
      \<and> inCanvas c (position (Ship_update deltaTime c s))
      \<and> inCanvas c (position (Asteroid_update deltaTime c a))
      \<and> (lifeTime b + deltaTime \<le> maxLifeTime \<longrightarrow> inCanvas c (position (Bullet_update deltaTime c b)))
      \<and> (lifeTime b + deltaTime > maxLifeTime \<longrightarrow> position (Bullet_update deltaTime c b) = position b)"
    by (simp add: inCanvas_wrapPosition Ship_update_in Asteroid_update_in Bullet_update_in)
       (simp add: Bullet_update_eq)
  have b: "0 \<le> fst c \<and> 0 \<le> snd c \<and> unitRandom rand \<and> new_Game rand c = Some g0
        \<longrightarrow> inBounds g0 \<and> canvas g0 = c"
    using new_Game_inBounds by blast
  have c: "0 \<le> fst (canvas g) \<and> 0 \<le> snd (canvas g) \<and> unitRandom rand \<and> inBounds g
        \<and> list_all (\<lambda>e. \<not> isResize e) evs \<and> run rand evs g = Some g'
        \<longrightarrow> inBounds g' \<and> canvas g' = canvas g"
    using run_inBounds by blast
  show ?thesis using a b c by blast
qed

theorem C10_entities_in_canvas_witness:
  "inCanvas (800, 600) (position (Ship_update 10 (800, 600) ((new_Ship 790 300)\<lparr>velocity := (3, 4)\<rparr>)))
   \<and> position (Ship_update 10 (800, 600) ((new_Ship 790 300)\<lparr>velocity := (3, 4)\<rparr>)) = (0, 1696 / 5)
   \<and> inBounds ((playingGame [new_Asteroid 0 0 large 0 0 0, new_Asteroid 0 0 large 0 0 0,
                         new_Asteroid 0 0 large 0 0 0, new_Asteroid 0 0 large 0 0 0,
                         new_Asteroid 0 0 large 0 0 0] [])
             \<lparr>state := READY, randomCalls := 25\<rparr>)
   \<and> inBounds ((playingGame [(new_Asteroid 700 500 large 0 0 0)\<lparr>position := (1415 / 2, 500), rotation := - 3 / 20\<rparr>]
                        [(new_Bullet 400 300 0)\<lparr>position := (400, 240), lifeTime := 3 / 20\<rparr>])
            \<lparr>lastTime := 200, fireDelay := 1 / 10\<rparr>)"
proof -
  let ?g0 = "(playingGame [new_Asteroid 0 0 large 0 0 0, new_Asteroid 0 0 large 0 0 0,
                         new_Asteroid 0 0 large 0 0 0, new_Asteroid 0 0 large 0 0 0,
                         new_Asteroid 0 0 large 0 0 0] [])
             \<lparr>state := READY, randomCalls := 25\<rparr>"
  let ?g1 = "(playingGame [(new_Asteroid 700 500 large 0 0 0)\<lparr>position := (705, 500), rotation := - 1 / 10\<rparr>]
                        [(new_Bullet 400 300 0)\<lparr>position := (400, 260), lifeTime := 1 / 10\<rparr>])
            \<lparr>lastTime := 100, fireDelay := 15 / 100\<rparr>"
  let ?g2 = "(playingGame [(new_Asteroid 700 500 large 0 0 0)\<lparr>position := (1415 / 2, 500), rotation := - 3 / 20\<rparr>]
                        [(new_Bullet 400 300 0)\<lparr>position := (400, 240), lifeTime := 3 / 20\<rparr>])
            \<lparr>lastTime := 200, fireDelay := 1 / 10\<rparr>"
  let ?evs = "[KeyPDown, Frame 150 fireHeld, KeyPDown, Frame 200 fireHeld]"
  note t = C10_entities_in_canvas [where c = "(800, 600)" and deltaTime = 10
      and s = "(new_Ship 790 300)\<lparr>velocity := (3, 4)\<rparr>" and rand = zeroRandom and ?g0.0 = ?g0
      and g = ?g1 and evs = ?evs and g' = ?g2]
  have u: "unitRandom zeroRandom" by (simp add: unitRandom_def zeroRandom_def)
  have c: "(0::real) \<le> fst (800, 600) \<and> (0::real) \<le> snd (800, 600)" by simp
  have c1: "0 \<le> fst (canvas ?g1) \<and> 0 \<le> snd (canvas ?g1)" by (simp add: playingGame_def)
  have i1: "inBounds ?g1"
    by (simp add: inBounds_def inCanvas_def playingGame_def new_Ship_def)
  have nr: "list_all (\<lambda>e. \<not> isResize e) ?evs" by simp
  have r: "run zeroRandom ?evs ?g1 = Some ?g2"
    using demo_run by (simp add: zeroRandom_def [abs_def])
  from t c have p1: "inCanvas (800, 600) (position (Ship_update 10 (800, 600) ((new_Ship 790 300)\<lparr>velocity := (3, 4)\<rparr>)))"
    by blast
  from t c u new_Game_zero have p2: "inBounds ?g0" by blast
  from t c1 u i1 nr r have p3: "inBounds ?g2" by blast
  show ?thesis using p1 p2 p3 ship_overshoots by simp
qed

text \<open>
  Without the restriction the invariant fails: a resize changes the canvas size and
  moves no entity. After the constructor on a canvas of 800 by 600 and a resize to 300 by
  200, the ship is still at (400, 300), outside the canvas.
\<close>

theorem C10_resize_counterexample:
  "new_Game zeroRandom (800, 600)
     = Some ((playingGame [new_Asteroid 0 0 large 0 0 0, new_Asteroid 0 0 large 0 0 0,
                         new_Asteroid 0 0 large 0 0 0, new_Asteroid 0 0 large 0 0 0,
                         new_Asteroid 0 0 large 0 0 0] [])
             \<lparr>state := READY, randomCalls := 25\<rparr>)
   \<and> run zeroRandom [WindowResize (300, 200)]
        ((playingGame [new_Asteroid 0 0 large 0 0 0, new_Asteroid 0 0 large 0 0 0,
                         new_Asteroid 0 0 large 0 0 0, new_Asteroid 0 0 large 0 0 0,
                         new_Asteroid 0 0 large 0 0 0] [])
             \<lparr>state := READY, randomCalls := 25\<rparr>)
     = Some ((playingGame [new_Asteroid 0 0 large 0 0 0, new_Asteroid 0 0 large 0 0 0,
                         new_Asteroid 0 0 large 0 0 0, new_Asteroid 0 0 large 0 0 0,
                         new_Asteroid 0 0 large 0 0 0] [])
             \<lparr>state := READY, randomCalls := 25, canvas := (300, 200)\<rparr>)
   \<and> position (ship ((playingGame [new_Asteroid 0 0 large 0 0 0, new_Asteroid 0 0 large 0 0 0,
                         new_Asteroid 0 0 large 0 0 0, new_Asteroid 0 0 large 0 0 0,
                         new_Asteroid 0 0 large 0 0 0] [])
             \<lparr>state := READY, randomCalls := 25, canvas := (300, 200)\<rparr>)) = (400, 300)
   \<and> \<not> inBounds ((playingGame [new_Asteroid 0 0 large 0 0 0, new_Asteroid 0 0 large 0 0 0,
                         new_Asteroid 0 0 large 0 0 0, new_Asteroid 0 0 large 0 0 0,
                         new_Asteroid 0 0 large 0 0 0] [])
             \<lparr>state := READY, randomCalls := 25, canvas := (300, 200)\<rparr>)"
  by (simp add: new_Game_zero) (simp add: onResize_def playingGame_def inBounds_def inCanvas_def new_Ship_def)

end
